theory Spec2Isabelle
  imports Complex_Main
begin

section \<open>Conventions of the embedding\<close>

text \<open>
  The development follows the TypeScript sources of the watch-room:
  \<^verbatim>\<open>src/lib/syncEngine.ts\<close> (the synchronization engine),
  the \<^verbatim>\<open>WatchRoom\<close> component (second module of
  \<^verbatim>\<open>src/components/IdentitySelector.tsx\<close>, the reconciliation handlers),
  \<^verbatim>\<open>src/components/VideoPlayer.tsx\<close> (the imperative player handle and its
  echo suppression) and \<^verbatim>\<open>src/components/LocalFileSelector.tsx\<close> (room key
  derivation).

  \<^item> A JavaScript number that holds seconds is a finite IEEE 754 double, modelled by the
    \<^typ>\<open>real\<close> it denotes; the arithmetic the handlers do on such numbers rounds as
    doubles do (see below). NaN and the infinities are outside the model.
  \<^item> Milliseconds (\<^verbatim>\<open>Date.now()\<close>, \<^verbatim>\<open>setTimeout\<close> delays) are \<^typ>\<open>nat\<close>.
  \<^item> A React ref or a nullable value is an \<^typ>\<open>'a option\<close>; optional chaining
    \<^verbatim>\<open>x?.f()\<close> is a case distinction on it.
  \<^item> A JavaScript string that is only stored, compared and concatenated (identities,
    room ids, hashes, notices) is a \<^typ>\<open>string\<close>; a value is falsy when it is absent
    or empty. The non-ASCII characters of the user-visible notices are written as their
    UTF-8 bytes. The room name, whose characters are inspected, is a list of UTF-16
    code units.
  \<^item> Handlers mutate component state; here they take the state and return the new one.
    Calls made on the player handle and on the transport channel are appended to two
    logs kept in the state, so that their order can be stated.
  \<^item> \<^verbatim>\<open>setTimeout\<close> is a list of pending deadlines on a millisecond clock; a timer
    fires when the clock reaches its deadline.
\<close>

definition truthy :: "string \<Rightarrow> bool" where
  "truthy s = (s \<noteq> [])"

definition truthyOpt :: "string option \<Rightarrow> bool" where
  "truthyOpt v = (case v of None \<Rightarrow> False | Some s \<Rightarrow> truthy s)"

section \<open>Event codec (syncEngine.ts)\<close>

datatype PlaybackStateName = Playing | Paused | Seeked

datatype TimeSyncStateName = TsPlaying | TsPaused

text \<open>
  The discriminated union \<^verbatim>\<open>SyncEvent\<close>. Field order as in the interfaces:
  \<^verbatim>\<open>PlaybackStateEvent state time sender timestamp\<close>,
  \<^verbatim>\<open>BufferStateEvent isBuffering sender timestamp\<close>,
  \<^verbatim>\<open>TimeSyncEvent time state sender timestamp\<close>,
  \<^verbatim>\<open>ChatMessageEvent text sender timestamp\<close>,
  \<^verbatim>\<open>ChatUiStateEvent isOpen sender\<close>, \<^verbatim>\<open>RequestStateEvent sender\<close>,
  \<^verbatim>\<open>FileHashEvent hash fileName sender\<close>.
\<close>

datatype SyncEvent =
    PlaybackStateEvent PlaybackStateName real string nat
  | BufferStateEvent bool string nat
  | TimeSyncEvent real TimeSyncStateName string nat
  | ChatMessageEvent string string nat
  | ChatUiStateEvent bool string
  | RequestStateEvent string
  | FileHashEvent string string string

fun sender :: "SyncEvent \<Rightarrow> string" where
  "sender (PlaybackStateEvent st t s ts) = s"
| "sender (BufferStateEvent b s ts) = s"
| "sender (TimeSyncEvent t st s ts) = s"
| "sender (ChatMessageEvent txt s ts) = s"
| "sender (ChatUiStateEvent b s) = s"
| "sender (RequestStateEvent s) = s"
| "sender (FileHashEvent h n s) = s"

datatype EventKind =
    playback_state | buffer_state | time_sync | chat_message
  | chat_ui_state | request_state | file_hash

fun kind :: "SyncEvent \<Rightarrow> EventKind" where
  "kind (PlaybackStateEvent st t s ts) = playback_state"
| "kind (BufferStateEvent b s ts) = buffer_state"
| "kind (TimeSyncEvent t st s ts) = time_sync"
| "kind (ChatMessageEvent txt s ts) = chat_message"
| "kind (ChatUiStateEvent b s) = chat_ui_state"
| "kind (RequestStateEvent s) = request_state"
| "kind (FileHashEvent h n s) = file_hash"

record PresenceState =
  ps_identity :: string
  ps_online :: bool


definition TIME_SYNC_INTERVAL_MS :: nat where
  "TIME_SYNC_INTERVAL_MS = 3000"

section \<open>Synchronization engine (useSyncEngine)\<close>

record Channel =
  channelName :: string
  presenceKey :: string

text \<open>What the engine asks of the transport, in call order.\<close>

datatype TransportAction =
    Subscribe string string
  | Send SyncEvent
  | Track string bool
  | Unsubscribe string

record SyncEngine =
  channelRef :: "Channel option"
  connected :: bool

definition initialEngine :: SyncEngine where
  "initialEngine = \<lparr>channelRef = None, connected = False\<rparr>"

text \<open>
  The subscription effect. Its first line is the guard
  \<^verbatim>\<open>if (!videoId || !identity) return;\<close>; past it, the channel
  \<^verbatim>\<open>watchroom-${videoId}\<close> is created with the identity as presence key,
  subscribed, and stored in \<^verbatim>\<open>channelRef\<close>.
\<close>

definition subscriptionEffect ::
  "string \<Rightarrow> string option \<Rightarrow> SyncEngine \<Rightarrow> SyncEngine \<times> TransportAction list" where
  "subscriptionEffect videoId identity eng =
     (case identity of
        None \<Rightarrow> (eng, [])
      | Some ident \<Rightarrow>
          if \<not> truthy videoId \<or> \<not> truthy ident then (eng, [])
          else
            let ch = \<lparr>channelName = ''watchroom-'' @ videoId, presenceKey = ident\<rparr>
            in (eng\<lparr>channelRef := Some ch\<rparr>, [Subscribe (channelName ch) ident]))"

text \<open>
  The callback handed to \<^verbatim>\<open>channel.subscribe\<close>. It exists only for a channel the
  effect has subscribed, so a status notification with no channel reaches no code.
\<close>

definition subscribeStatus :: "string \<Rightarrow> SyncEngine \<Rightarrow> SyncEngine \<times> TransportAction list" where
  "subscribeStatus status eng =
     (case channelRef eng of
        None \<Rightarrow> (eng, [])
      | Some ch \<Rightarrow>
          if status = ''SUBSCRIBED''
          then (eng\<lparr>connected := True\<rparr>, [Track (presenceKey ch) True])
          else (eng, []))"

text \<open>The effect's cleanup, returned only when the guard was passed.\<close>

definition cleanup :: "SyncEngine \<Rightarrow> SyncEngine \<times> TransportAction list" where
  "cleanup eng =
     (case channelRef eng of
        None \<Rightarrow> (eng, [])
      | Some ch \<Rightarrow> (eng\<lparr>channelRef := None, connected := False\<rparr>, [Unsubscribe (channelName ch)]))"

text \<open>
  The broadcast listener: \<^verbatim>\<open>if (!data || data.sender === identity) return;\<close>
  and then the switch on \<^verbatim>\<open>data.type\<close>. A callback is optional
  (\<^verbatim>\<open>onPlaybackState?.(data)\<close>): \<open>registered\<close> says which ones the caller supplied.
  The result is the list of handler invocations, each the handler's kind and its argument.
\<close>

definition dispatch ::
  "(EventKind \<Rightarrow> bool) \<Rightarrow> string \<Rightarrow> SyncEvent option \<Rightarrow> (EventKind \<times> SyncEvent) list" where
  "dispatch registered identity payload =
     (case payload of
        None \<Rightarrow> []
      | Some data \<Rightarrow>
          if sender data = identity then []
          else (case data of
              PlaybackStateEvent st t s ts \<Rightarrow>
                if registered playback_state then [(playback_state, data)] else []
            | BufferStateEvent b s ts \<Rightarrow>
                if registered buffer_state then [(buffer_state, data)] else []
            | TimeSyncEvent t st s ts \<Rightarrow>
                if registered time_sync then [(time_sync, data)] else []
            | ChatMessageEvent txt s ts \<Rightarrow>
                if registered chat_message then [(chat_message, data)] else []
            | ChatUiStateEvent b s \<Rightarrow>
                if registered chat_ui_state then [(chat_ui_state, data)] else []
            | RequestStateEvent s \<Rightarrow>
                if registered request_state then [(request_state, data)] else []
            | FileHashEvent h n s \<Rightarrow>
                if registered file_hash then [(file_hash, data)] else []))"

text \<open>
  The presence listeners surface a change only for a key other than the local identity.
\<close>

definition presenceJoin :: "string \<Rightarrow> string \<Rightarrow> PresenceState list" where
  "presenceJoin identity key =
     (if key \<noteq> identity then [\<lparr>ps_identity = key, ps_online = True\<rparr>] else [])"

definition presenceLeave :: "string \<Rightarrow> string \<Rightarrow> PresenceState list" where
  "presenceLeave identity key =
     (if key \<noteq> identity then [\<lparr>ps_identity = key, ps_online = False\<rparr>] else [])"

text \<open>
  \<^verbatim>\<open>broadcast\<close>: \<^verbatim>\<open>if (!channelRef.current) return;\<close>, else one
  \<^verbatim>\<open>send\<close> on the channel. The engine holds no queue: the state is returned as it was.
\<close>

definition broadcast :: "SyncEngine \<Rightarrow> SyncEvent \<Rightarrow> SyncEngine \<times> TransportAction list" where
  "broadcast eng event =
     (case channelRef eng of
        None \<Rightarrow> (eng, [])
      | Some ch \<Rightarrow> (eng, [Send event]))"

text \<open>
  The convenience emitters. Each starts with \<^verbatim>\<open>if (!identity) return;\<close> and stamps
  the event with the identity and, where the event has one, \<^verbatim>\<open>Date.now()\<close> (the
  argument \<open>now\<close>).
\<close>

definition emitWith ::
  "string option \<Rightarrow> SyncEngine \<Rightarrow> (string \<Rightarrow> SyncEvent) \<Rightarrow> SyncEngine \<times> TransportAction list" where
  "emitWith identity eng mk =
     (case identity of
        None \<Rightarrow> (eng, [])
      | Some ident \<Rightarrow> if \<not> truthy ident then (eng, []) else broadcast eng (mk ident))"

definition emitPlaybackState ::
  "string option \<Rightarrow> nat \<Rightarrow> SyncEngine \<Rightarrow> PlaybackStateName \<Rightarrow> real
     \<Rightarrow> SyncEngine \<times> TransportAction list" where
  "emitPlaybackState identity now eng st t =
     emitWith identity eng (\<lambda>ident. PlaybackStateEvent st t ident now)"

definition emitBufferState ::
  "string option \<Rightarrow> nat \<Rightarrow> SyncEngine \<Rightarrow> bool \<Rightarrow> SyncEngine \<times> TransportAction list" where
  "emitBufferState identity now eng isBuffering =
     emitWith identity eng (\<lambda>ident. BufferStateEvent isBuffering ident now)"

definition emitTimeSync ::
  "string option \<Rightarrow> nat \<Rightarrow> SyncEngine \<Rightarrow> real \<Rightarrow> TimeSyncStateName
     \<Rightarrow> SyncEngine \<times> TransportAction list" where
  "emitTimeSync identity now eng t st =
     emitWith identity eng (\<lambda>ident. TimeSyncEvent t st ident now)"

definition emitChatMessage ::
  "string option \<Rightarrow> nat \<Rightarrow> SyncEngine \<Rightarrow> string \<Rightarrow> SyncEngine \<times> TransportAction list" where
  "emitChatMessage identity now eng txt =
     emitWith identity eng (\<lambda>ident. ChatMessageEvent txt ident now)"

definition emitChatUiState ::
  "string option \<Rightarrow> SyncEngine \<Rightarrow> bool \<Rightarrow> SyncEngine \<times> TransportAction list" where
  "emitChatUiState identity eng isOpen =
     emitWith identity eng (\<lambda>ident. ChatUiStateEvent isOpen ident)"

definition requestCurrentState ::
  "string option \<Rightarrow> SyncEngine \<Rightarrow> SyncEngine \<times> TransportAction list" where
  "requestCurrentState identity eng =
     emitWith identity eng (\<lambda>ident. RequestStateEvent ident)"

definition emitFileHash ::
  "string option \<Rightarrow> SyncEngine \<Rightarrow> string \<Rightarrow> string \<Rightarrow> SyncEngine \<times> TransportAction list" where
  "emitFileHash identity eng h fileName =
     emitWith identity eng (\<lambda>ident. FileHashEvent h fileName ident)"

text \<open>
  The engine's life as the transport and the component drive it: the effect runs
  (on mount, or when the room or identity changes, after the previous cleanup), the
  transport reports a subscription status, the component unmounts, or a caller emits.
\<close>

datatype EngineInput =
    RunEffect string "string option"
  | Status string
  | Cleanup
  | Emit SyncEvent

fun engineStep :: "SyncEngine \<Rightarrow> EngineInput \<Rightarrow> SyncEngine \<times> TransportAction list" where
  "engineStep eng (RunEffect videoId identity) =
     (let (e1, a1) = cleanup eng; (e2, a2) = subscriptionEffect videoId identity e1
      in (e2, a1 @ a2))"
| "engineStep eng (Status s) = subscribeStatus s eng"
| "engineStep eng Cleanup = cleanup eng"
| "engineStep eng (Emit event) = broadcast eng event"

fun engineRun :: "SyncEngine \<Rightarrow> EngineInput list \<Rightarrow> SyncEngine \<times> TransportAction list" where
  "engineRun eng [] = (eng, [])"
| "engineRun eng (i # ins) =
     (let (e1, a1) = engineStep eng i; (e2, a2) = engineRun e1 ins in (e2, a1 @ a2))"

section \<open>Video player (VideoPlayer.tsx)\<close>

text \<open>
  The media element behind \<^verbatim>\<open>videoRef\<close>, as far as the handle reads and writes it:
  assigning \<^verbatim>\<open>currentTime\<close> moves the position, \<^verbatim>\<open>play()\<close> and
  \<^verbatim>\<open>pause()\<close> flip \<^verbatim>\<open>paused\<close>. The element announces what happened later,
  through the media events below.
\<close>

record VideoElement =
  currentTime :: real
  paused :: bool

datatype PlayerCommand = Play | Pause | SeekTo real

record VideoPlayer =
  videoRef :: "VideoElement option"
  isPlayingState :: bool
  isBufferingState :: bool
  suppressEventsRef :: bool
  suppressTimers :: "nat list"

text \<open>
  The imperative handle. \<^verbatim>\<open>play\<close> and \<^verbatim>\<open>pause\<close> raise
  \<^verbatim>\<open>suppressEventsRef\<close> and schedule its reset after 200 ms, whether or not the
  element is mounted; \<^verbatim>\<open>seekTo\<close> does so only with a mounted element, with a delay
  of 300 ms. No pending reset is cancelled.
\<close>

definition play :: "nat \<Rightarrow> VideoPlayer \<Rightarrow> VideoPlayer" where
  "play now p =
     p\<lparr>videoRef := map_option (\<lambda>v. v\<lparr>paused := False\<rparr>) (videoRef p),
       suppressEventsRef := True,
       suppressTimers := suppressTimers p @ [now + 200]\<rparr>"

definition pause :: "nat \<Rightarrow> VideoPlayer \<Rightarrow> VideoPlayer" where
  "pause now p =
     p\<lparr>videoRef := map_option (\<lambda>v. v\<lparr>paused := True\<rparr>) (videoRef p),
       suppressEventsRef := True,
       suppressTimers := suppressTimers p @ [now + 200]\<rparr>"

definition seekTo :: "nat \<Rightarrow> real \<Rightarrow> VideoPlayer \<Rightarrow> VideoPlayer" where
  "seekTo now t p =
     (case videoRef p of
        None \<Rightarrow> p
      | Some v \<Rightarrow>
          p\<lparr>videoRef := Some (v\<lparr>currentTime := t\<rparr>),
            suppressEventsRef := True,
            suppressTimers := suppressTimers p @ [now + 300]\<rparr>)"

text \<open>\<^verbatim>\<open>videoRef.current?.currentTime || 0\<close> and \<^verbatim>\<open>!videoRef.current?.paused\<close>.\<close>

definition getCurrentTime :: "VideoPlayer \<Rightarrow> real" where
  "getCurrentTime p = (case videoRef p of None \<Rightarrow> 0 | Some v \<Rightarrow> currentTime v)"

definition isPlaying :: "VideoPlayer \<Rightarrow> bool" where
  "isPlaying p = (case videoRef p of None \<Rightarrow> True | Some v \<Rightarrow> \<not> paused v)"

fun execCommand :: "nat \<Rightarrow> PlayerCommand \<Rightarrow> VideoPlayer \<Rightarrow> VideoPlayer" where
  "execCommand now Play p = play now p"
| "execCommand now Pause p = pause now p"
| "execCommand now (SeekTo t) p = seekTo now t p"

text \<open>
  A reset scheduled by \<^verbatim>\<open>setTimeout\<close> runs once the clock has reached its
  deadline; every reset clears the one shared flag.
\<close>

definition fireTimers :: "nat \<Rightarrow> VideoPlayer \<Rightarrow> VideoPlayer" where
  "fireTimers now p =
     (if list_ex (\<lambda>d. d \<le> now) (suppressTimers p)
      then p\<lparr>suppressEventsRef := False,
             suppressTimers := filter (\<lambda>d. now < d) (suppressTimers p)\<rparr>
      else p)"

datatype MediaEvent = EvPlay | EvPause | EvSeeked | EvWaiting | EvPlaying | EvCanPlay

datatype PlayerCallback =
  OnPlay real | OnPause real | OnSeeked real | OnBufferingStart | OnBufferingEnd

text \<open>
  The listeners the component attaches to the element (none when the element is not
  mounted). The result is the new component state and the callbacks invoked.
\<close>

definition mediaListener :: "MediaEvent \<Rightarrow> VideoPlayer \<Rightarrow> VideoPlayer \<times> PlayerCallback list" where
  "mediaListener ev p =
     (case videoRef p of
        None \<Rightarrow> (p, [])
      | Some video \<Rightarrow>
          (case ev of
             EvPlay \<Rightarrow>
               (p\<lparr>isPlayingState := True\<rparr>,
                if \<not> suppressEventsRef p then [OnPlay (currentTime video)] else [])
           | EvPause \<Rightarrow>
               (p\<lparr>isPlayingState := False\<rparr>,
                if \<not> suppressEventsRef p then [OnPause (currentTime video)] else [])
           | EvSeeked \<Rightarrow>
               (p, if \<not> suppressEventsRef p then [OnSeeked (currentTime video)] else [])
           | EvWaiting \<Rightarrow> (p\<lparr>isBufferingState := True\<rparr>, [OnBufferingStart])
           | EvPlaying \<Rightarrow> (p\<lparr>isBufferingState := False\<rparr>, [OnBufferingEnd])
           | EvCanPlay \<Rightarrow> (p\<lparr>isBufferingState := False\<rparr>, [])))"

text \<open>The callbacks that would echo a programmatic command back to the peer.\<close>

fun isEcho :: "PlayerCallback \<Rightarrow> bool" where
  "isEcho (OnPlay t) = True"
| "isEcho (OnPause t) = True"
| "isEcho (OnSeeked t) = True"
| "isEcho OnBufferingStart = False"
| "isEcho OnBufferingEnd = False"

text \<open>
  The listeners for \<^verbatim>\<open>timeupdate\<close>, \<^verbatim>\<open>durationchange\<close> and \<^verbatim>\<open>error\<close> write display
  state only and are left out.

  The player on its own: the owner calls the handle, the element raises media events,
  and time passes between them.
\<close>

datatype PlayerInput = Command PlayerCommand | Native MediaEvent | Wait nat

fun playerRun ::
  "nat \<Rightarrow> VideoPlayer \<Rightarrow> PlayerInput list \<Rightarrow> nat \<times> VideoPlayer \<times> PlayerCallback list" where
  "playerRun now p [] = (now, p, [])"
| "playerRun now p (Command c # ins) = playerRun now (execCommand now c p) ins"
| "playerRun now p (Native ev # ins) =
     (let (p1, cbs) = mediaListener ev p; (n2, p2, cbs2) = playerRun now p1 ins
      in (n2, p2, cbs @ cbs2))"
| "playerRun now p (Wait d # ins) = playerRun (now + d) (fireTimers (now + d) p) ins"

fun waited :: "PlayerInput list \<Rightarrow> nat" where
  "waited [] = 0"
| "waited (Command c # ins) = waited ins"
| "waited (Native ev # ins) = waited ins"
| "waited (Wait d # ins) = d + waited ins"

section \<open>Double-precision arithmetic\<close>

text \<open>
  JavaScript numbers are IEEE 754 doubles. A finite double is modelled by the real number
  it denotes, and an arithmetic operation by the exact operation followed by rounding to
  the nearest real with a 53-bit significand, ties to the even significand. Comparison
  and \<^verbatim>\<open>Math.abs\<close> are exact. The exponent range is not bounded: overflow to an
  infinity and the coarser rounding of subnormal results are not modelled (neither
  changes how a drift compares with 500), and NaN is outside the model.

  \<open>scaleDown\<close> and \<open>scaleUp\<close> bring a positive real into the binade from \<open>2^52\<close> to
  \<open>2^53\<close>, where the representable numbers are the integers, and keep the factor that
  leads back.
\<close>

definition roundHalfEven :: "real \<Rightarrow> int" where
  "roundHalfEven q =
     (let f = \<lfloor>q\<rfloor>; r = q - of_int f
      in if r < 1 / 2 then f
         else if 1 / 2 < r then f + 1
         else if even f then f else f + 1)"

function scaleDown :: "real \<Rightarrow> real \<Rightarrow> real \<times> real" where
  "scaleDown x s = (if 2 ^ 53 \<le> x then scaleDown (x / 2) (s * 2) else (x, s))"
  by pat_completeness auto
termination
proof (relation "measure (\<lambda>(x, s). nat \<lfloor>x\<rfloor>)")
  show "wf (measure (\<lambda>(x, s). nat \<lfloor>x\<rfloor>))" by simp
next
  fix x s :: real
  assume "2 ^ 53 \<le> x"
  then have two: "2 \<le> x" by simp
  then have "x / 2 \<le> x - 1" by simp
  then have "\<lfloor>x / 2\<rfloor> \<le> \<lfloor>x - 1\<rfloor>" by (rule floor_mono)
  then have "\<lfloor>x / 2\<rfloor> < \<lfloor>x\<rfloor>" by simp
  moreover have "0 < \<lfloor>x\<rfloor>" using two by simp
  ultimately have "nat \<lfloor>x / 2\<rfloor> < nat \<lfloor>x\<rfloor>" by simp
  then show "((x / 2, s * 2), (x, s)) \<in> measure (\<lambda>(x, s). nat \<lfloor>x\<rfloor>)"
    by simp
qed

declare scaleDown.simps [simp del]

function scaleUp :: "real \<Rightarrow> real \<Rightarrow> real \<times> real" where
  "scaleUp x s = (if 0 < x \<and> x < 2 ^ 52 then scaleUp (x * 2) (s / 2) else (x, s))"
  by pat_completeness auto
termination
proof (relation "measure (\<lambda>(x, s). nat \<lfloor>2 ^ 52 / x\<rfloor>)")
  show "wf (measure (\<lambda>(x, s). nat \<lfloor>2 ^ 52 / x\<rfloor>))" by simp
next
  fix x s :: real
  assume small: "0 < x \<and> x < 2 ^ 52"
  define y where "y = 2 ^ 52 / x"
  have y1: "1 \<le> y" using small by (simp add: y_def)
  have pos: "0 < \<lfloor>y\<rfloor>" using y1 by simp
  have "\<lfloor>y / 2\<rfloor> < \<lfloor>y\<rfloor>"
  proof (cases "2 \<le> y")
    case True
    then have "y / 2 \<le> y - 1" by simp
    then have "\<lfloor>y / 2\<rfloor> \<le> \<lfloor>y - 1\<rfloor>" by (rule floor_mono)
    then show ?thesis by simp
  next
    case False
    then have "\<lfloor>y / 2\<rfloor> = 0" using y1 by (simp add: floor_eq_iff)
    with pos show ?thesis by simp
  qed
  with pos have less: "nat \<lfloor>y / 2\<rfloor> < nat \<lfloor>y\<rfloor>" by simp
  have "2 ^ 52 / (x * 2) = y / 2" by (simp add: y_def)
  with less have "nat \<lfloor>2 ^ 52 / (x * 2)\<rfloor> < nat \<lfloor>2 ^ 52 / x\<rfloor>"
    by (simp only: y_def)
  then show "((x * 2, s / 2), (x, s)) \<in> measure (\<lambda>(x, s). nat \<lfloor>2 ^ 52 / x\<rfloor>)"
    by (simp only: in_measure split_conv)
qed

declare scaleUp.simps [simp del]

definition round53 :: "real \<Rightarrow> real" where
  "round53 x =
     (if x = 0 then 0
      else
        let (q1, s1) = scaleDown \<bar>x\<bar> 1;
            (q, s) = scaleUp q1 s1
        in sgn x * of_int (roundHalfEven q) * s)"

text \<open>The two operations of the drift computation.\<close>

definition fsub :: "real \<Rightarrow> real \<Rightarrow> real" where
  "fsub x y = round53 (x - y)"

definition fmul :: "real \<Rightarrow> real \<Rightarrow> real" where
  "fmul x y = round53 (x * y)"

section \<open>Watch room (the WatchRoom component)\<close>

datatype PlaybackMode = Cloud | Local

record LocalFile =
  lf_name :: string
  lf_size :: nat
  lf_objectUrl :: string
  lf_hash :: string

record ChatMessage =
  cm_text :: string
  cm_sender :: string
  cm_timestamp :: nat

text \<open>
  The component's state: what \<^verbatim>\<open>useApp\<close> provides (identity, mode, local file),
  the clock, the player behind \<^verbatim>\<open>playerRef\<close>, the engine, the \<^verbatim>\<open>useState\<close>
  cells and the two buffering refs. \<open>playerCalls\<close> and \<open>transportLog\<close> record the
  calls made on the player handle and on the channel, oldest first.
\<close>

record WatchRoom =
  identity :: "string option"
  mode :: "PlaybackMode option"
  localFile :: "LocalFile option"
  now :: nat
  playerRef :: "VideoPlayer option"
  syncEngine :: SyncEngine
  peerOnline :: bool
  peerName :: string
  peerBuffering :: bool
  bufferNotice :: string
  chatOpen :: bool
  peerChatOpen :: "bool option"
  messages :: "ChatMessage list"
  notification :: string
  notificationTimers :: "nat list"
  hashWarning :: string
  localBufferingRef :: bool
  peerBufferingRef :: bool
  playerCalls :: "PlayerCommand list"
  transportLog :: "TransportAction list"

text \<open>\<^verbatim>\<open>roomId || selectedVideo?.id || 'default'\<close>.\<close>

definition effectiveRoomId :: "string option \<Rightarrow> string option \<Rightarrow> string" where
  "effectiveRoomId roomId selectedVideoId =
     (case roomId of
        Some r \<Rightarrow>
          if truthy r then r
          else (case selectedVideoId of
                  Some v \<Rightarrow> if truthy v then v else ''default''
                | None \<Rightarrow> ''default'')
      | None \<Rightarrow>
          (case selectedVideoId of
             Some v \<Rightarrow> if truthy v then v else ''default''
           | None \<Rightarrow> ''default''))"

text \<open>A call on the player handle, made only when \<^verbatim>\<open>playerRef.current\<close> is set.\<close>

definition callPlayer :: "PlayerCommand \<Rightarrow> WatchRoom \<Rightarrow> WatchRoom" where
  "callPlayer c w =
     (case playerRef w of
        None \<Rightarrow> w
      | Some p \<Rightarrow>
          w\<lparr>playerRef := Some (execCommand (now w) c p),
            playerCalls := playerCalls w @ [c]\<rparr>)"

text \<open>A call of one of the engine's emitters: the channel's sends are logged.\<close>

definition withEmit :: "SyncEngine \<times> TransportAction list \<Rightarrow> WatchRoom \<Rightarrow> WatchRoom" where
  "withEmit r w = w\<lparr>syncEngine := fst r, transportLog := transportLog w @ snd r\<rparr>"

definition showNotification :: "string \<Rightarrow> WatchRoom \<Rightarrow> WatchRoom" where
  "showNotification msg w =
     w\<lparr>notification := msg, notificationTimers := notificationTimers w @ [now w + 4000]\<rparr>"

subsection \<open>Sync engine callbacks\<close>

definition handlePlaybackState :: "WatchRoom \<Rightarrow> PlaybackStateName \<Rightarrow> real \<Rightarrow> WatchRoom" where
  "handlePlaybackState w st t =
     (case playerRef w of
        None \<Rightarrow> w
      | Some player \<Rightarrow>
          (case st of
             Playing \<Rightarrow> callPlayer Play (callPlayer (SeekTo t) w)
           | Paused \<Rightarrow> callPlayer (SeekTo t) (callPlayer Pause w)
           | Seeked \<Rightarrow> callPlayer (SeekTo t) w))"

text \<open>The notice \<^verbatim>\<open>Waiting for ${event.sender}...\<close>, closed by U+2026.\<close>

definition waitingNotice :: "string \<Rightarrow> string" where
  "waitingNotice s = ''Waiting for '' @ s @ [CHR 0xE2, CHR 0x80, CHR 0xA6]"

definition handleBufferState :: "WatchRoom \<Rightarrow> bool \<Rightarrow> string \<Rightarrow> WatchRoom" where
  "handleBufferState w isBuffering s =
     (let w1 = w\<lparr>peerBufferingRef := isBuffering, peerBuffering := isBuffering\<rparr>
      in if isBuffering
         then callPlayer Pause (w1\<lparr>bufferNotice := waitingNotice s\<rparr>)
         else
           let w2 = w1\<lparr>bufferNotice := ''''\<rparr>
           in if \<not> localBufferingRef w2 then callPlayer Play w2 else w2)"

definition handleTimeSync :: "WatchRoom \<Rightarrow> real \<Rightarrow> TimeSyncStateName \<Rightarrow> WatchRoom" where
  "handleTimeSync w t st =
     (case playerRef w of
        None \<Rightarrow> w
      | Some player \<Rightarrow>
          let localTime = getCurrentTime player;
              drift = fmul \<bar>fsub localTime t\<bar> 1000;
              w1 = (if drift > 500 then callPlayer (SeekTo t) w else w);
              localPlaying = (case playerRef w1 of None \<Rightarrow> True | Some p1 \<Rightarrow> isPlaying p1)
          in if st = TsPlaying \<and> \<not> localPlaying \<and> \<not> peerBufferingRef w1 \<and> \<not> localBufferingRef w1
             then callPlayer Play w1
             else if st = TsPaused \<and> localPlaying then callPlayer Pause w1
             else w1)"

definition handleChatMessage :: "WatchRoom \<Rightarrow> string \<Rightarrow> string \<Rightarrow> nat \<Rightarrow> WatchRoom" where
  "handleChatMessage w txt s ts =
     w\<lparr>messages := messages w @ [\<lparr>cm_text = txt, cm_sender = s, cm_timestamp = ts\<rparr>]\<rparr>"

definition handleChatUiState :: "WatchRoom \<Rightarrow> bool \<Rightarrow> WatchRoom" where
  "handleChatUiState w isOpen = w\<lparr>peerChatOpen := Some isOpen\<rparr>"

text \<open>\<^verbatim>\<open>mode === 'local' && localFile?.hash\<close>: the local file, when it has a hash.\<close>

definition localHashFile :: "WatchRoom \<Rightarrow> LocalFile option" where
  "localHashFile w =
     (if mode w = Some Local
      then (case localFile w of
              None \<Rightarrow> None
            | Some f \<Rightarrow> if truthy (lf_hash f) then Some f else None)
      else None)"

definition handleRequestState :: "WatchRoom \<Rightarrow> WatchRoom" where
  "handleRequestState w =
     (case playerRef w of
        None \<Rightarrow> w
      | Some player \<Rightarrow>
          let t = getCurrentTime player;
              playing = isPlaying player;
              w1 = withEmit (emitPlaybackState (identity w) (now w) (syncEngine w)
                               (if playing then Playing else Paused) t) w
          in (case localHashFile w1 of
                None \<Rightarrow> w1
              | Some f \<Rightarrow>
                  withEmit (emitFileHash (identity w1) (syncEngine w1) (lf_hash f) (lf_name f)) w1))"

text \<open>
  The two notices of the file check. The mismatch warning starts with U+26A0 U+FE0F,
  the success notice with U+2705 and holds U+2014.
\<close>

definition mismatchWarning :: "string \<Rightarrow> string \<Rightarrow> string" where
  "mismatchWarning s fileName =
     [CHR 0xE2, CHR 0x9A, CHR 0xA0, CHR 0xEF, CHR 0xB8, CHR 0x8F] @ '' File mismatch! '' @ s
       @ '' has '' @ [CHR 0x22] @ fileName @ [CHR 0x22]
       @ '' but your file hash differs. You may be watching different versions.''"

definition verifiedNotice :: "string \<Rightarrow> string" where
  "verifiedNotice s =
     [CHR 0xE2, CHR 0x9C, CHR 0x85] @ '' File verified '' @ [CHR 0xE2, CHR 0x80, CHR 0x94]
       @ '' same file as '' @ s"

definition handleFileHash :: "WatchRoom \<Rightarrow> string \<Rightarrow> string \<Rightarrow> string \<Rightarrow> WatchRoom" where
  "handleFileHash w h fileName s =
     (case localHashFile w of
        None \<Rightarrow> w
      | Some f \<Rightarrow>
          if h \<noteq> lf_hash f
          then w\<lparr>hashWarning := mismatchWarning s fileName\<rparr>
          else showNotification (verifiedNotice s) (w\<lparr>hashWarning := ''''\<rparr>))"

definition handlePresenceChange :: "WatchRoom \<Rightarrow> PresenceState \<Rightarrow> WatchRoom" where
  "handlePresenceChange w st =
     (let w1 = w\<lparr>peerOnline := ps_online st, peerName := ps_identity st\<rparr>
      in if ps_online st
         then showNotification (ps_identity st @ '' joined the room'') w1
         else showNotification (ps_identity st @ '' left the room'') w1)"

subsection \<open>Player event handlers\<close>

definition handlePlay :: "WatchRoom \<Rightarrow> real \<Rightarrow> WatchRoom" where
  "handlePlay w t = withEmit (emitPlaybackState (identity w) (now w) (syncEngine w) Playing t) w"

definition handlePause :: "WatchRoom \<Rightarrow> real \<Rightarrow> WatchRoom" where
  "handlePause w t = withEmit (emitPlaybackState (identity w) (now w) (syncEngine w) Paused t) w"

definition handleSeeked :: "WatchRoom \<Rightarrow> real \<Rightarrow> WatchRoom" where
  "handleSeeked w t = withEmit (emitPlaybackState (identity w) (now w) (syncEngine w) Seeked t) w"

definition handleBufferingStart :: "WatchRoom \<Rightarrow> WatchRoom" where
  "handleBufferingStart w =
     (let w1 = w\<lparr>localBufferingRef := True\<rparr>
      in withEmit (emitBufferState (identity w1) (now w1) (syncEngine w1) True) w1)"

definition handleBufferingEnd :: "WatchRoom \<Rightarrow> WatchRoom" where
  "handleBufferingEnd w =
     (let w1 = w\<lparr>localBufferingRef := False\<rparr>
      in withEmit (emitBufferState (identity w1) (now w1) (syncEngine w1) False) w1)"

text \<open>The Dismiss button of the mismatch banner.\<close>

definition dismissHashWarning :: "WatchRoom \<Rightarrow> WatchRoom" where
  "dismissHashWarning w = w\<lparr>hashWarning := ''''\<rparr>"

subsection \<open>The room as the engine and the player drive it\<close>

text \<open>The handlers the room registers with the engine: all seven.\<close>

fun runHandler :: "WatchRoom \<Rightarrow> EventKind \<times> SyncEvent \<Rightarrow> WatchRoom" where
  "runHandler w (k, PlaybackStateEvent st t s ts) = handlePlaybackState w st t"
| "runHandler w (k, BufferStateEvent b s ts) = handleBufferState w b s"
| "runHandler w (k, TimeSyncEvent t st s ts) = handleTimeSync w t st"
| "runHandler w (k, ChatMessageEvent txt s ts) = handleChatMessage w txt s ts"
| "runHandler w (k, ChatUiStateEvent b s) = handleChatUiState w b"
| "runHandler w (k, RequestStateEvent s) = handleRequestState w"
| "runHandler w (k, FileHashEvent h n s) = handleFileHash w h n s"

text \<open>
  A broadcast arriving on the channel. The listener exists only while the channel
  does, and was created with the identity of that time.
\<close>

definition receive :: "WatchRoom \<Rightarrow> SyncEvent option \<Rightarrow> WatchRoom" where
  "receive w payload =
     (case channelRef (syncEngine w) of
        None \<Rightarrow> w
      | Some ch \<Rightarrow> foldl runHandler w (dispatch (\<lambda>k. True) (presenceKey ch) payload))"

fun playerCallback :: "WatchRoom \<Rightarrow> PlayerCallback \<Rightarrow> WatchRoom" where
  "playerCallback w (OnPlay t) = handlePlay w t"
| "playerCallback w (OnPause t) = handlePause w t"
| "playerCallback w (OnSeeked t) = handleSeeked w t"
| "playerCallback w OnBufferingStart = handleBufferingStart w"
| "playerCallback w OnBufferingEnd = handleBufferingEnd w"

definition mediaEvent :: "WatchRoom \<Rightarrow> MediaEvent \<Rightarrow> WatchRoom" where
  "mediaEvent w ev =
     (case playerRef w of
        None \<Rightarrow> w
      | Some p \<Rightarrow>
          let (p1, cbs) = mediaListener ev p
          in foldl playerCallback (w\<lparr>playerRef := Some p1\<rparr>) cbs)"

text \<open>
  Time passing: the clock moves on and the timers that are due run (the resets of the
  player's suppression flag, and the clearing of the notification toast).
\<close>

definition advance :: "WatchRoom \<Rightarrow> nat \<Rightarrow> WatchRoom" where
  "advance w d =
     (let t = now w + d;
          w1 = w\<lparr>now := t, playerRef := map_option (fireTimers t) (playerRef w)\<rparr>
      in if list_ex (\<lambda>dl. dl \<le> t) (notificationTimers w1)
         then w1\<lparr>notification := '''',
                 notificationTimers := filter (\<lambda>dl. t < dl) (notificationTimers w1)\<rparr>
         else w1)"

text \<open>
  A presence notification arriving on the channel, filtered by the engine's listeners.
\<close>

definition presenceEvent :: "WatchRoom \<Rightarrow> bool \<Rightarrow> string \<Rightarrow> WatchRoom" where
  "presenceEvent w joined key =
     (case channelRef (syncEngine w) of
        None \<Rightarrow> w
      | Some ch \<Rightarrow>
          foldl handlePresenceChange w
            (if joined then presenceJoin (presenceKey ch) key
             else presenceLeave (presenceKey ch) key))"

text \<open>
  The effect that runs when the engine reports a connection, and the callback of the
  heartbeat interval (every \<^verbatim>\<open>TIME_SYNC_INTERVAL_MS\<close>).
\<close>

definition connectEffect :: "WatchRoom \<Rightarrow> WatchRoom" where
  "connectEffect w =
     (if connected (syncEngine w)
      then (case localHashFile w of
              Some f \<Rightarrow>
                let w1 = withEmit (emitFileHash (identity w) (syncEngine w) (lf_hash f) (lf_name f)) w
                in withEmit (requestCurrentState (identity w1) (syncEngine w1)) w1
            | None \<Rightarrow>
                if mode w = Some Cloud
                then withEmit (requestCurrentState (identity w) (syncEngine w)) w
                else w)
      else w)"

definition timeSyncTick :: "WatchRoom \<Rightarrow> WatchRoom" where
  "timeSyncTick w =
     (case playerRef w of
        None \<Rightarrow> w
      | Some player \<Rightarrow>
          let t = getCurrentTime player;
              playing = isPlaying player
          in if playing
             then withEmit (emitTimeSync (identity w) (now w) (syncEngine w) t TsPlaying) w
             else w)"

text \<open>The chat handlers of the local user.\<close>

definition handleSendMessage :: "WatchRoom \<Rightarrow> string \<Rightarrow> WatchRoom" where
  "handleSendMessage w body =
     (let w1 = withEmit (emitChatMessage (identity w) (now w) (syncEngine w) body) w
      in w1\<lparr>messages := messages w1 @
             [\<lparr>cm_text = body,
               cm_sender = (case identity w1 of None \<Rightarrow> '''' | Some ident \<Rightarrow> ident),
               cm_timestamp = now w1\<rparr>]\<rparr>)"

definition handleChatToggle :: "WatchRoom \<Rightarrow> WatchRoom" where
  "handleChatToggle w =
     (let newState = \<not> chatOpen w;
          w1 = w\<lparr>chatOpen := newState\<rparr>
      in withEmit (emitChatUiState (identity w1) (syncEngine w1) newState) w1)"

datatype RoomInput =
    Receive "SyncEvent option"
  | PresenceJoin string
  | PresenceLeave string
  | Media MediaEvent
  | Advance nat
  | Connected
  | TimeSyncTick
  | SendMessage string
  | ChatToggle
  | Dismiss

fun roomStep :: "WatchRoom \<Rightarrow> RoomInput \<Rightarrow> WatchRoom" where
  "roomStep w (Receive payload) = receive w payload"
| "roomStep w (PresenceJoin key) = presenceEvent w True key"
| "roomStep w (PresenceLeave key) = presenceEvent w False key"
| "roomStep w (Media ev) = mediaEvent w ev"
| "roomStep w (Advance d) = advance w d"
| "roomStep w Connected = connectEffect w"
| "roomStep w TimeSyncTick = timeSyncTick w"
| "roomStep w (SendMessage body) = handleSendMessage w body"
| "roomStep w ChatToggle = handleChatToggle w"
| "roomStep w Dismiss = dismissHashWarning w"

definition roomRun :: "WatchRoom \<Rightarrow> RoomInput list \<Rightarrow> WatchRoom" where
  "roomRun w ins = foldl roomStep w ins"

section \<open>Room key derivation (LocalFileSelector.tsx)\<close>

text \<open>
  \<^verbatim>\<open>btoa(roomName.trim().toLowerCase()).replace(/[^a-zA-Z0-9]/g, '')\<close>.
  The room name is a JavaScript string: a list of UTF-16 code units, each a number
  below 65536. \<open>units\<close> turns a literal of this file into its code units.
\<close>

definition units :: "string \<Rightarrow> nat list" where
  "units s = map of_char s"

text \<open>
  \<^verbatim>\<open>trim\<close> removes WhiteSpace and LineTerminator code points from both ends: TAB, LF,
  VT, FF, CR, SPACE, NBSP, U+1680, U+2000 to U+200A, U+2028, U+2029, U+202F, U+205F,
  U+3000 and U+FEFF.
\<close>

definition isWhiteSpace :: "nat \<Rightarrow> bool" where
  "isWhiteSpace u =
     ((9 \<le> u \<and> u \<le> 13) \<or> u = 32 \<or> u = 160 \<or> u = 0x1680
      \<or> (0x2000 \<le> u \<and> u \<le> 0x200A) \<or> u = 0x2028 \<or> u = 0x2029
      \<or> u = 0x202F \<or> u = 0x205F \<or> u = 0x3000 \<or> u = 0xFEFF)"

definition trim :: "nat list \<Rightarrow> nat list" where
  "trim s = rev (dropWhile isWhiteSpace (rev (dropWhile isWhiteSpace s)))"

text \<open>
  \<^verbatim>\<open>toLowerCase\<close>. Up to code unit 255 the mapping is written out: A to Z and the
  Latin-1 capitals (0xC0 to 0xDE but the multiplication sign 0xD7) go to the letter 32
  above, every other unit stays. For a code unit above 255 the result is the platform's
  Unicode case mapping, which this repository does not hold: it is the parameter
  \<open>unicodeLower\<close>, asked with the units before the position, the unit and the units
  after it, and answering with the units that stand for it in the result (so that
  KELVIN SIGN can become k, a capital sigma can depend on its neighbours, and the two
  halves of a surrogate pair can be answered together).
\<close>

definition isLatinCapital :: "nat \<Rightarrow> bool" where
  "isLatinCapital u = ((65 \<le> u \<and> u \<le> 90) \<or> (192 \<le> u \<and> u \<le> 222 \<and> u \<noteq> 215))"

fun lowerFrom ::
  "(nat list \<Rightarrow> nat \<Rightarrow> nat list \<Rightarrow> nat list) \<Rightarrow> nat list \<Rightarrow> nat list \<Rightarrow> nat list" where
  "lowerFrom unicodeLower before [] = []"
| "lowerFrom unicodeLower before (u # after) =
     (if isLatinCapital u then [u + 32]
      else if u \<le> 255 then [u]
      else unicodeLower before u after)
     @ lowerFrom unicodeLower (before @ [u]) after"

definition toLowerCase ::
  "(nat list \<Rightarrow> nat \<Rightarrow> nat list \<Rightarrow> nat list) \<Rightarrow> nat list \<Rightarrow> nat list" where
  "toLowerCase unicodeLower s = lowerFrom unicodeLower [] s"

text \<open>
  \<^verbatim>\<open>btoa\<close> throws InvalidCharacterError when the string holds a code unit above 255,
  and is base64 with padding otherwise. Its result is ASCII.
\<close>

datatype BtoaError = InvalidCharacterError

definition base64Alphabet :: string where
  "base64Alphabet = ''ABCDEFGHIJKLMNOPQRSTUVWXYZabcdefghijklmnopqrstuvwxyz0123456789+/''"

definition base64Digit :: "nat \<Rightarrow> char" where
  "base64Digit n = base64Alphabet ! (n mod 64)"

fun base64 :: "nat list \<Rightarrow> string" where
  "base64 [] = []"
| "base64 [x] =
     [base64Digit (x div 4), base64Digit ((x mod 4) * 16), CHR ''='', CHR ''='']"
| "base64 [x, y] =
     [base64Digit (x div 4), base64Digit ((x mod 4) * 16 + y div 16),
      base64Digit ((y mod 16) * 4), CHR ''='']"
| "base64 (x # y # z # rest) =
     [base64Digit (x div 4), base64Digit ((x mod 4) * 16 + y div 16),
      base64Digit ((y mod 16) * 4 + z div 64), base64Digit (z mod 64)] @ base64 rest"

definition btoa :: "nat list \<Rightarrow> BtoaError + string" where
  "btoa s = (if list_ex (\<lambda>u. 255 < u) s then Inl InvalidCharacterError else Inr (base64 s))"

definition isAlphaNumeric :: "char \<Rightarrow> bool" where
  "isAlphaNumeric c =
     (let n = (of_char c :: nat)
      in (97 \<le> n \<and> n \<le> 122) \<or> (65 \<le> n \<and> n \<le> 90) \<or> (48 \<le> n \<and> n \<le> 57))"

definition deriveRoomId ::
  "(nat list \<Rightarrow> nat \<Rightarrow> nat list \<Rightarrow> nat list) \<Rightarrow> nat list \<Rightarrow> BtoaError + string" where
  "deriveRoomId unicodeLower roomName =
     (case btoa (toLowerCase unicodeLower (trim roomName)) of
        Inl e \<Rightarrow> Inl e
      | Inr encoded \<Rightarrow> Inr (filter isAlphaNumeric encoded))"

text \<open>
  \<^verbatim>\<open>handleStartWatching\<close>: the selected file (name and size) if any, the outcome of
  \<^verbatim>\<open>computeFileHash\<close> (\<open>None\<close> when it rejects), the object URL and the room name
  typed. A rejected hash and a throwing \<^verbatim>\<open>btoa\<close> both end in the \<^verbatim>\<open>catch\<close>, which
  reports that the file could not be processed; no room id exists then. On success
  \<^verbatim>\<open>setLocalFile\<close> receives the file record and the room id.
\<close>

datatype StartError = NoFileSelected | NoRoomName | ProcessingFailed

definition handleStartWatching ::
  "(nat list \<Rightarrow> nat \<Rightarrow> nat list \<Rightarrow> nat list) \<Rightarrow> (string \<times> nat) option \<Rightarrow> string option
     \<Rightarrow> string \<Rightarrow> nat list \<Rightarrow> StartError + LocalFile \<times> string" where
  "handleStartWatching unicodeLower file fileHash objectUrl roomName =
     (case file of
        None \<Rightarrow> Inl NoFileSelected
      | Some (fname, fsize) \<Rightarrow>
          if trim roomName = [] then Inl NoRoomName
          else (case fileHash of
                  None \<Rightarrow> Inl ProcessingFailed
                | Some h \<Rightarrow>
                    (case deriveRoomId unicodeLower roomName of
                       Inl e \<Rightarrow> Inl ProcessingFailed
                     | Inr roomId \<Rightarrow>
                         Inr (\<lparr>lf_name = fname, lf_size = fsize, lf_objectUrl = objectUrl,
                               lf_hash = h\<rparr>,
                              roomId))))"

text \<open>
  A fragment of the Unicode case mapping, for the examples: KELVIN SIGN (U+212A) becomes
  k, every other code unit above 255 stays as it is (as the caseless CJK ideographs do).
\<close>

definition exampleLower :: "nat list \<Rightarrow> nat \<Rightarrow> nat list \<Rightarrow> nat list" where
  "exampleLower before u after = (if u = 0x212A then [0x6B] else [u])"

section \<open>Notions used in the statements\<close>




definition localTime :: "WatchRoom \<Rightarrow> real option" where
  "localTime w = map_option getCurrentTime (playerRef w)"

text \<open>An engine input that gives the effect no room key or no identity, or none at all.\<close>

fun keyless :: "EngineInput \<Rightarrow> bool" where
  "keyless (RunEffect videoId ident) = (\<not> truthy videoId \<or> \<not> truthyOpt ident)"
| "keyless (Status s) = True"
| "keyless Cleanup = True"
| "keyless (Emit event) = True"

text \<open>The two inputs that write the mismatch warning: a file hash event and Dismiss.\<close>

fun touchesWarning :: "RoomInput \<Rightarrow> bool" where
  "touchesWarning (Receive (Some (FileHashEvent h n s))) = True"
| "touchesWarning Dismiss = True"
| "touchesWarning i = False"

text \<open>
  A room of the second participant, in local-file mode, connected, with a paused player
  standing at 40 s.
\<close>

definition examplePlayer :: VideoPlayer where
  "examplePlayer =
     \<lparr>videoRef = Some \<lparr>currentTime = 40, paused = True\<rparr>,
      isPlayingState = False, isBufferingState = False,
      suppressEventsRef = False, suppressTimers = []\<rparr>"

definition exampleEngine :: SyncEngine where
  "exampleEngine =
     \<lparr>channelRef = Some \<lparr>channelName = ''watchroom-abc'', presenceKey = ''Manika''\<rparr>,
      connected = True\<rparr>"

definition exampleFile :: LocalFile where
  "exampleFile =
     \<lparr>lf_name = ''film.mp4'', lf_size = 1000, lf_objectUrl = ''blob:film'', lf_hash = ''def456''\<rparr>"

definition exampleRoom :: WatchRoom where
  "exampleRoom =
     \<lparr>identity = Some ''Manika'', mode = Some Local, localFile = Some exampleFile,
      now = 0, playerRef = Some examplePlayer, syncEngine = exampleEngine,
      peerOnline = True, peerName = ''Aditya'', peerBuffering = False, bufferNotice = '''',
      chatOpen = False, peerChatOpen = None, messages = [], notification = '''',
      notificationTimers = [], hashWarning = '''', localBufferingRef = False,
      peerBufferingRef = False, playerCalls = [], transportLog = []\<rparr>"






text \<open>The inputs of the player that are calls on its handle.\<close>

fun isCommand :: "PlayerInput \<Rightarrow> bool" where
  "isCommand (Command c) = True"
| "isCommand (Native ev) = False"
| "isCommand (Wait d) = False"

text \<open>
  The local reconciliation state: the buffering flags, the notice, the peer's presence,
  the two chat panels, the transcript, the toast, the mismatch warning and the local
  file. The clock, the pending timers and the two call logs are not part of it.
\<close>

definition reconState ::
  "WatchRoom \<Rightarrow> bool \<times> bool \<times> bool \<times> string \<times> bool \<times> string \<times> bool \<times> bool option
     \<times> ChatMessage list \<times> string \<times> string \<times> LocalFile option" where
  "reconState w =
     (localBufferingRef w, peerBufferingRef w, peerBuffering w, bufferNotice w,
      peerOnline w, peerName w, chatOpen w, peerChatOpen w, messages w, notification w,
      hashWarning w, localFile w)"

text \<open>The media element's position and paused flag, when a player is mounted.\<close>

definition elementState :: "WatchRoom \<Rightarrow> VideoElement option option" where
  "elementState w = map_option videoRef (playerRef w)"

text \<open>The command sequence of one playback_state event.\<close>

definition playbackCommands :: "PlaybackStateName \<Rightarrow> real \<Rightarrow> PlayerCommand list" where
  "playbackCommands st t =
     (case st of Playing \<Rightarrow> [SeekTo t, Play] | Paused \<Rightarrow> [Pause, SeekTo t] | Seeked \<Rightarrow> [SeekTo t])"

section \<open>Helper lemmas\<close>

lemma callPlayer_calls:
  "playerRef w = Some p \<Longrightarrow> playerCalls (callPlayer c w) = playerCalls w @ [c]"
  by (simp add: callPlayer_def)

lemma handlePlaybackState_calls:
  "playerRef w = Some p \<Longrightarrow>
   playerCalls (handlePlaybackState w st t) =
     playerCalls w @ (case st of Playing \<Rightarrow> [SeekTo t, Play]
                                | Paused \<Rightarrow> [Pause, SeekTo t]
                                | Seeked \<Rightarrow> [SeekTo t])"
  by (cases st) (simp_all add: handlePlaybackState_def callPlayer_def)

lemma getCurrentTime_play [simp]: "getCurrentTime (play n p) = getCurrentTime p"
  by (simp add: getCurrentTime_def play_def split: option.splits)

lemma getCurrentTime_pause [simp]: "getCurrentTime (pause n p) = getCurrentTime p"
  by (simp add: getCurrentTime_def pause_def split: option.splits)

lemma isPlaying_seekTo [simp]: "isPlaying (seekTo n t p) = isPlaying p"
  by (simp add: isPlaying_def seekTo_def split: option.splits)

lemma subscriptionEffect_guard:
  "\<not> truthy videoId \<or> \<not> truthyOpt ident \<Longrightarrow> subscriptionEffect videoId ident eng = (eng, [])"
  by (auto simp: subscriptionEffect_def truthyOpt_def split: option.splits)

lemma engineStep_keyless:
  "keyless i \<Longrightarrow> channelRef eng = None \<Longrightarrow> engineStep eng i = (eng, [])"
  by (cases i) (simp_all add: subscriptionEffect_guard cleanup_def subscribeStatus_def broadcast_def)

lemma engineRun_keyless:
  "list_all keyless ins \<Longrightarrow> channelRef eng = None \<Longrightarrow> engineRun eng ins = (eng, [])"
  by (induction ins) (simp_all add: engineStep_keyless)

lemma engineRun_dropped_emits:
  "channelRef eng = None \<Longrightarrow> engineRun eng (map Emit evs @ rest) = engineRun eng rest"
  by (induction evs) (simp_all add: broadcast_def)

lemma emitWith_closed:
  "channelRef eng = None \<Longrightarrow> emitWith ident eng mk = (eng, [])"
  by (simp add: emitWith_def broadcast_def split: option.splits)

lemma hashWarning_callPlayer [simp]: "hashWarning (callPlayer c w) = hashWarning w"
  by (simp add: callPlayer_def split: option.splits)

lemma hashWarning_withEmit [simp]: "hashWarning (withEmit r w) = hashWarning w"
  by (simp add: withEmit_def)

lemma hashWarning_handlePlaybackState [simp]:
  "hashWarning (handlePlaybackState w st t) = hashWarning w"
  by (simp add: handlePlaybackState_def split: option.splits PlaybackStateName.splits)

lemma hashWarning_handleBufferState [simp]:
  "hashWarning (handleBufferState w b s) = hashWarning w"
  by (simp add: handleBufferState_def Let_def)

lemma hashWarning_handleTimeSync [simp]:
  "hashWarning (handleTimeSync w t st) = hashWarning w"
  by (simp add: handleTimeSync_def Let_def split: option.splits)

lemma hashWarning_handleRequestState [simp]:
  "hashWarning (handleRequestState w) = hashWarning w"
  by (simp add: handleRequestState_def Let_def split: option.splits)

lemma hashWarning_playerCallback [simp]:
  "hashWarning (playerCallback w cb) = hashWarning w"
  by (cases cb) (simp_all add: handlePlay_def handlePause_def handleSeeked_def
        handleBufferingStart_def handleBufferingEnd_def Let_def)

lemma hashWarning_callbacks [simp]:
  "hashWarning (foldl playerCallback w cbs) = hashWarning w"
  by (induction cbs arbitrary: w) simp_all

lemma hashWarning_receive:
  "\<not> touchesWarning (Receive payload) \<Longrightarrow> hashWarning (receive w payload) = hashWarning w"
proof (cases payload)
  case None
  then show ?thesis by (simp add: receive_def dispatch_def split: option.splits)
next
  case (Some e)
  assume "\<not> touchesWarning (Receive payload)"
  with Some show ?thesis
    by (cases e) (simp_all add: receive_def dispatch_def handleChatMessage_def
          handleChatUiState_def split: option.splits)
qed

lemma hashWarning_handlePresenceChange [simp]:
  "hashWarning (handlePresenceChange w st) = hashWarning w"
  by (simp add: handlePresenceChange_def showNotification_def Let_def)

lemma hashWarning_presenceChanges [simp]:
  "hashWarning (foldl handlePresenceChange w sts) = hashWarning w"
  by (induction sts arbitrary: w) simp_all

lemma hashWarning_roomStep:
  "\<not> touchesWarning i \<Longrightarrow> hashWarning (roomStep w i) = hashWarning w"
proof (cases i)
  case (Receive payload)
  assume "\<not> touchesWarning i"
  with Receive show ?thesis by (simp add: hashWarning_receive)
next
  case (PresenceJoin key)
  then show ?thesis by (simp add: presenceEvent_def split: option.splits)
next
  case (PresenceLeave key)
  then show ?thesis by (simp add: presenceEvent_def split: option.splits)
next
  case (Media ev)
  then show ?thesis
    by (simp add: mediaEvent_def split: option.splits prod.splits)
next
  case (Advance d)
  then show ?thesis by (simp add: advance_def Let_def)
next
  case Connected
  then show ?thesis by (simp add: connectEffect_def Let_def split: option.splits)
next
  case TimeSyncTick
  then show ?thesis by (simp add: timeSyncTick_def Let_def split: option.splits)
next
  case (SendMessage body)
  then show ?thesis by (simp add: handleSendMessage_def Let_def)
next
  case ChatToggle
  then show ?thesis by (simp add: handleChatToggle_def Let_def)
next
  case Dismiss
  assume "\<not> touchesWarning i"
  with Dismiss show ?thesis by simp
qed

lemma hashWarning_roomRun:
  "list_all (\<lambda>i. \<not> touchesWarning i) ins \<Longrightarrow> hashWarning (roomRun w ins) = hashWarning w"
  unfolding roomRun_def
  by (induction ins arbitrary: w) (simp_all add: hashWarning_roomStep)

lemma exampleRoom_player: "playerRef exampleRoom = Some examplePlayer"
  by (simp add: exampleRoom_def)

lemma exampleRoom_channel:
  "channelRef (syncEngine exampleRoom) = Some \<lparr>channelName = ''watchroom-abc'', presenceKey = ''Manika''\<rparr>"
  by (simp add: exampleRoom_def exampleEngine_def)

lemma exampleRoom_localHashFile: "localHashFile exampleRoom = Some exampleFile"
  by (simp add: localHashFile_def exampleRoom_def exampleFile_def truthy_def)

lemma twice_playback:
  "reconState (handlePlaybackState (handlePlaybackState w st t) st t) = reconState (handlePlaybackState w st t)
   \<and> elementState (handlePlaybackState (handlePlaybackState w st t) st t) = elementState (handlePlaybackState w st t)"
  by (cases st; cases "playerRef w")
     (auto simp: handlePlaybackState_def callPlayer_def reconState_def elementState_def
        play_def pause_def seekTo_def split: option.splits)

lemma twice_buffer:
  "reconState (handleBufferState (handleBufferState w b s) b s) = reconState (handleBufferState w b s)
   \<and> elementState (handleBufferState (handleBufferState w b s) b s) = elementState (handleBufferState w b s)"
  by (cases b; cases "playerRef w")
     (auto simp: handleBufferState_def callPlayer_def reconState_def elementState_def
        play_def pause_def Let_def option.map_comp comp_def split: option.splits)

lemma round53_zero [simp]: "round53 0 = 0"
  by (simp add: round53_def)

lemma drift_after_seek [simp]: "fmul \<bar>fsub t t\<bar> 1000 = 0"
  by (simp add: fsub_def fmul_def)

lemma twice_timesync:
  "reconState (handleTimeSync (handleTimeSync w t st) t st) = reconState (handleTimeSync w t st)
   \<and> elementState (handleTimeSync (handleTimeSync w t st) t st) = elementState (handleTimeSync w t st)"
proof (cases "playerRef w")
  case None
  then show ?thesis by (simp add: handleTimeSync_def)
next
  case (Some p)
  show ?thesis
  proof (cases "videoRef p")
    case None
    with Some show ?thesis
      by (cases st)
         (auto simp: handleTimeSync_def callPlayer_def reconState_def elementState_def
            getCurrentTime_def isPlaying_def play_def pause_def seekTo_def Let_def)
  next
    case (Some v)
    with \<open>playerRef w = Some p\<close> show ?thesis
      by (cases st; cases "paused v")
         (auto simp: handleTimeSync_def callPlayer_def reconState_def elementState_def
            getCurrentTime_def isPlaying_def play_def pause_def seekTo_def Let_def)
  qed
qed

lemma twice_chatui:
  "reconState (handleChatUiState (handleChatUiState w b) b) = reconState (handleChatUiState w b)
   \<and> elementState (handleChatUiState (handleChatUiState w b) b) = elementState (handleChatUiState w b)"
  by (simp add: handleChatUiState_def reconState_def elementState_def)

lemma twice_request:
  "reconState (handleRequestState (handleRequestState w)) = reconState (handleRequestState w)
   \<and> elementState (handleRequestState (handleRequestState w)) = elementState (handleRequestState w)"
  by (auto simp: handleRequestState_def withEmit_def reconState_def elementState_def Let_def
        localHashFile_def split: option.splits)

lemma twice_filehash:
  "reconState (handleFileHash (handleFileHash w h n s) h n s) = reconState (handleFileHash w h n s)
   \<and> elementState (handleFileHash (handleFileHash w h n s) h n s) = elementState (handleFileHash w h n s)"
  by (auto simp: handleFileHash_def showNotification_def reconState_def elementState_def
        localHashFile_def split: option.splits)

lemma runHandler_twice:
  "kind e \<noteq> chat_message \<Longrightarrow>
     reconState (runHandler (runHandler w (k, e)) (k, e)) = reconState (runHandler w (k, e))
   \<and> elementState (runHandler (runHandler w (k, e)) (k, e)) = elementState (runHandler w (k, e))"
  by (cases e) (simp_all add: twice_playback twice_buffer twice_timesync twice_chatui
        twice_request twice_filehash)

lemma syncEngine_callPlayer [simp]: "syncEngine (callPlayer c w) = syncEngine w"
  by (simp add: callPlayer_def split: option.splits)

lemma syncEngine_emitWith [simp]: "fst (emitWith ident eng mk) = eng"
  by (simp add: emitWith_def broadcast_def split: option.splits)

lemma syncEngine_runHandler [simp]: "syncEngine (runHandler w (k, e)) = syncEngine w"
  by (cases e)
     (auto simp: handlePlaybackState_def handleBufferState_def handleTimeSync_def
        handleChatMessage_def handleChatUiState_def handleRequestState_def handleFileHash_def
        showNotification_def withEmit_def emitPlaybackState_def emitFileHash_def Let_def
        split: option.splits PlaybackStateName.splits)

lemma receive_cases:
  "receive w (Some e) =
     (case channelRef (syncEngine w) of
        None \<Rightarrow> w
      | Some ch \<Rightarrow> if sender e = presenceKey ch then w else runHandler w (kind e, e))"
  by (cases e) (simp_all add: receive_def dispatch_def split: option.splits)

lemma receive_twice:
  "kind e \<noteq> chat_message \<Longrightarrow>
     reconState (receive (receive w (Some e)) (Some e)) = reconState (receive w (Some e))
   \<and> elementState (receive (receive w (Some e)) (Some e)) = elementState (receive w (Some e))"
  by (simp add: receive_cases runHandler_twice split: option.splits)

lemma playerRef_handlePlaybackState:
  "playerRef w = Some p \<Longrightarrow> \<exists>p'. playerRef (handlePlaybackState w st t) = Some p'"
  by (cases st) (simp_all add: handlePlaybackState_def callPlayer_def)

lemma mediaListener_keeps:
  "mediaListener ev p = (p1, cbs) \<Longrightarrow>
     suppressEventsRef p1 = suppressEventsRef p \<and> suppressTimers p1 = suppressTimers p
     \<and> videoRef p1 = videoRef p"
  by (cases ev) (auto simp: mediaListener_def split: option.splits)

lemma mediaListener_suppressed:
  "suppressEventsRef p \<or> videoRef p = None \<Longrightarrow> mediaListener ev p = (p1, cbs) \<Longrightarrow>
     filter isEcho cbs = []"
  by (cases ev) (auto simp: mediaListener_def split: option.splits)

lemma fireTimers_not_due:
  "list_all (\<lambda>d. t < d) (suppressTimers p) \<Longrightarrow> fireTimers t p = p"
  by (auto simp: fireTimers_def list_ex_iff list_all_iff)

lemma execCommand_raises:
  "suppressEventsRef (execCommand t c p) \<or> videoRef (execCommand t c p) = None"
  by (cases c) (auto simp: play_def pause_def seekTo_def split: option.splits)

lemma execCommand_timers:
  "set (suppressTimers (execCommand t c p)) \<subseteq> set (suppressTimers p) \<union> {t + 200, t + 300}"
  by (cases c) (auto simp: play_def pause_def seekTo_def split: option.splits)

lemma playerRun_suppressed:
  "suppressEventsRef p \<or> videoRef p = None \<Longrightarrow>
   waited ins < 200 \<Longrightarrow>
   list_all (\<lambda>d. t + waited ins < d) (suppressTimers p) \<Longrightarrow>
   filter isEcho (snd (snd (playerRun t p ins))) = []"
proof (induction ins arbitrary: t p)
  case Nil
  then show ?case by simp
next
  case (Cons i ins)
  show ?case
  proof (cases i)
    case (Command c)
    from Cons.prems(2) Command have short: "waited ins < 200"
      by simp
    have "list_all (\<lambda>d. t + waited ins < d) (suppressTimers (execCommand t c p))"
      using Cons.prems(3) Command short execCommand_timers [of t c p]
      by (fastforce simp: list_all_iff)
    with execCommand_raises short
    have "filter isEcho (snd (snd (playerRun t (execCommand t c p) ins))) = []"
      by (rule Cons.IH)
    with Command show ?thesis by simp
  next
    case (Native ev)
    obtain p1 cbs where m: "mediaListener ev p = (p1, cbs)"
      by (cases "mediaListener ev p")
    from mediaListener_keeps [OF m] Cons.prems Native
    have "suppressEventsRef p1 \<or> videoRef p1 = None"
      and "waited ins < 200"
      and "list_all (\<lambda>d. t + waited ins < d) (suppressTimers p1)"
      by simp_all
    then have "filter isEcho (snd (snd (playerRun t p1 ins))) = []"
      by (rule Cons.IH)
    moreover have "filter isEcho cbs = []"
      using mediaListener_suppressed [OF Cons.prems(1) m] .
    ultimately show ?thesis
      using Native m by (simp add: split_beta)
  next
    case (Wait d)
    from Cons.prems(2) Wait have short: "waited ins < 200"
      by simp
    from Cons.prems(3) Wait
    have later: "list_all (\<lambda>dl. (t + d) + waited ins < dl) (suppressTimers p)"
      by (simp add: add.assoc)
    then have "list_all (\<lambda>dl. t + d < dl) (suppressTimers p)"
      by (auto simp: list_all_iff)
    then have same: "fireTimers (t + d) p = p"
      by (rule fireTimers_not_due)
    from Cons.IH [OF Cons.prems(1) short later] same Wait show ?thesis
      by simp
  qed
qed

lemma playerRun_no_commands:
  "suppressEventsRef p \<or> videoRef p = None \<Longrightarrow>
   \<not> list_ex isCommand ins \<Longrightarrow>
   list_all (\<lambda>d. t + waited ins < d) (suppressTimers p) \<Longrightarrow>
   filter isEcho (snd (snd (playerRun t p ins))) = []"
proof (induction ins arbitrary: t p)
  case Nil
  then show ?case by simp
next
  case (Cons i ins)
  show ?case
  proof (cases i)
    case (Command c)
    with Cons.prems(2) show ?thesis by simp
  next
    case (Native ev)
    obtain p1 cbs where m: "mediaListener ev p = (p1, cbs)"
      by (cases "mediaListener ev p")
    from mediaListener_keeps [OF m] Cons.prems Native
    have "suppressEventsRef p1 \<or> videoRef p1 = None"
      and "\<not> list_ex isCommand ins"
      and "list_all (\<lambda>d. t + waited ins < d) (suppressTimers p1)"
      by simp_all
    then have "filter isEcho (snd (snd (playerRun t p1 ins))) = []"
      by (rule Cons.IH)
    moreover have "filter isEcho cbs = []"
      using mediaListener_suppressed [OF Cons.prems(1) m] .
    ultimately show ?thesis
      using Native m by (simp add: split_beta)
  next
    case (Wait d)
    from Cons.prems(2) Wait have none: "\<not> list_ex isCommand ins"
      by simp
    from Cons.prems(3) Wait
    have later: "list_all (\<lambda>dl. (t + d) + waited ins < dl) (suppressTimers p)"
      by (simp add: add.assoc)
    then have "list_all (\<lambda>dl. t + d < dl) (suppressTimers p)"
      by (auto simp: list_all_iff)
    then have same: "fireTimers (t + d) p = p"
      by (rule fireTimers_not_due)
    from Cons.IH [OF Cons.prems(1) none later] same Wait show ?thesis
      by simp
  qed
qed

lemma mediaEvent_suppressed:
  "playerRef w = Some q \<Longrightarrow> suppressEventsRef q \<Longrightarrow>
     transportLog (mediaEvent w EvPlay) = transportLog w
   \<and> transportLog (mediaEvent w EvPause) = transportLog w
   \<and> transportLog (mediaEvent w EvSeeked) = transportLog w"
  by (simp add: mediaEvent_def mediaListener_def split: option.splits)

lemma mediaEvent_forwarded:
  "playerRef w = Some q \<Longrightarrow> videoRef q = Some u \<Longrightarrow> \<not> suppressEventsRef q \<Longrightarrow>
   identity w = Some ident \<Longrightarrow> truthy ident \<Longrightarrow> channelRef (syncEngine w) = Some ch \<Longrightarrow>
     transportLog (mediaEvent w EvPlay)
       = transportLog w @ [Send (PlaybackStateEvent Playing (currentTime u) ident (now w))]
   \<and> transportLog (mediaEvent w EvPause)
       = transportLog w @ [Send (PlaybackStateEvent Paused (currentTime u) ident (now w))]
   \<and> transportLog (mediaEvent w EvSeeked)
       = transportLog w @ [Send (PlaybackStateEvent Seeked (currentTime u) ident (now w))]"
  by (simp add: mediaEvent_def mediaListener_def handlePlay_def handlePause_def
        handleSeeked_def withEmit_def emitPlaybackState_def emitWith_def broadcast_def)

lemma trim_padding:
  assumes "list_all isWhiteSpace ws1" "list_all isWhiteSpace ws2"
  shows "trim (ws1 @ a @ ws2) = trim a"
proof -
  have l: "dropWhile isWhiteSpace (ws1 @ a @ ws2) = dropWhile isWhiteSpace (a @ ws2)"
    using assms(1) by (induction ws1) simp_all
  have r: "\<And>b. dropWhile isWhiteSpace (rev ws2 @ b) = dropWhile isWhiteSpace b"
    using assms(2) by (induction ws2 rule: rev_induct) simp_all
  show ?thesis
  proof (cases "list_all isWhiteSpace a")
    case True
    have e1: "dropWhile isWhiteSpace (a @ ws2) = []"
      using True assms(2) by (simp add: list_all_iff)
    have e2: "dropWhile isWhiteSpace a = []"
      using True by (simp add: list_all_iff)
    show ?thesis unfolding trim_def l e1 e2 ..
  next
    case False
    then obtain x where "x \<in> set a" "\<not> isWhiteSpace x"
      by (auto simp: list_all_iff)
    then have "dropWhile isWhiteSpace (a @ ws2) = dropWhile isWhiteSpace a @ ws2"
      by simp
    then show ?thesis by (simp add: trim_def l r)
  qed
qed

lemma same_core_same_outcome:
  assumes "trim n1 \<noteq> []" and "trim n2 \<noteq> []"
    and "toLowerCase tbl (trim n1) = toLowerCase tbl (trim n2)"
  shows "deriveRoomId tbl n1 = deriveRoomId tbl n2"
    and "handleStartWatching tbl sel hashed blob n1 = handleStartWatching tbl sel hashed blob n2"
proof -
  show k: "deriveRoomId tbl n1 = deriveRoomId tbl n2"
    using assms(3) by (simp add: deriveRoomId_def)
  have e: "(trim n1 = []) = (trim n2 = [])"
    using assms(1,2) by simp
  show "handleStartWatching tbl sel hashed blob n1 = handleStartWatching tbl sel hashed blob n2"
    unfolding handleStartWatching_def k e ..
qed

lemma base64_ab_question:
  "base64 (units ''ab?'') = ''YWI/''" "base64 (units ''ab'') = ''YWI=''"
  by (simp_all add: units_def base64Digit_def base64Alphabet_def)

section \<open>Reconciliation of playback state\<close>

text \<open>
  C1. A playback_state event from the peer, received by a room whose player is mounted,
  makes the handler call seekTo(time) and then play() when the state is playing,
  pause() and then seekTo(time) when it is paused, and seekTo(time) alone when it is
  seeked. The calls are the same whatever the local player's position is: the event's
  time is never compared with it.
\<close>

theorem playback_state_command_order:
  assumes ch: "channelRef (syncEngine w) = Some ch"
    and peer: "s \<noteq> presenceKey ch"
    and player: "playerRef w = Some p"
  shows "playerCalls (receive w (Some (PlaybackStateEvent Playing t s ts))) = playerCalls w @ [SeekTo t, Play]
    \<and> playerCalls (receive w (Some (PlaybackStateEvent Paused t s ts))) = playerCalls w @ [Pause, SeekTo t]
    \<and> playerCalls (receive w (Some (PlaybackStateEvent Seeked t s ts))) = playerCalls w @ [SeekTo t]
    \<and> (\<forall>st p'. playerCalls (receive (w\<lparr>playerRef := Some p'\<rparr>) (Some (PlaybackStateEvent st t s ts)))
          = playerCalls (receive w (Some (PlaybackStateEvent st t s ts))))"
  using assms by (simp add: receive_def dispatch_def handlePlaybackState_calls)

theorem playback_state_command_order_witness:
  "playerCalls (receive exampleRoom (Some (PlaybackStateEvent Playing 10 ''Aditya'' 7))) = [SeekTo 10, Play]
   \<and> playerCalls (receive exampleRoom (Some (PlaybackStateEvent Paused 10 ''Aditya'' 7))) = [Pause, SeekTo 10]
   \<and> playerCalls (receive exampleRoom (Some (PlaybackStateEvent Seeked 10 ''Aditya'' 7))) = [SeekTo 10]"
proof -
  have peer: "''Aditya'' \<noteq> presenceKey \<lparr>channelName = ''watchroom-abc'', presenceKey = ''Manika''\<rparr>"
    by simp
  have calls: "playerCalls exampleRoom = []"
    by (simp add: exampleRoom_def)
  from playback_state_command_order [OF exampleRoom_channel peer exampleRoom_player, of 10 7]
  show ?thesis by (simp add: calls)
qed

section \<open>Drift correction\<close>



section \<open>Self-echo suppression\<close>

text \<open>
  C3. An event whose sender is the local identity invokes no handler, whatever its
  kind and whichever handlers are registered.
\<close>

theorem self_echo_invokes_no_handler:
  "sender event = ident \<Longrightarrow> dispatch registered ident (Some event) = []"
  by (simp add: dispatch_def)

theorem self_echo_invokes_no_handler_witness:
  "dispatch (\<lambda>k. True) ''Aditya'' (Some (PlaybackStateEvent Playing 10 ''Aditya'' 0)) = []
   \<and> dispatch (\<lambda>k. True) ''Aditya'' (Some (BufferStateEvent True ''Aditya'' 0)) = []
   \<and> dispatch (\<lambda>k. True) ''Aditya'' (Some (TimeSyncEvent 10 TsPlaying ''Aditya'' 0)) = []
   \<and> dispatch (\<lambda>k. True) ''Aditya'' (Some (ChatMessageEvent ''hi'' ''Aditya'' 0)) = []
   \<and> dispatch (\<lambda>k. True) ''Aditya'' (Some (ChatUiStateEvent True ''Aditya'')) = []
   \<and> dispatch (\<lambda>k. True) ''Aditya'' (Some (RequestStateEvent ''Aditya'')) = []
   \<and> dispatch (\<lambda>k. True) ''Aditya'' (Some (FileHashEvent ''abc123'' ''a.mp4'' ''Aditya'')) = []"
  using self_echo_invokes_no_handler [of "PlaybackStateEvent Playing 10 ''Aditya'' 0" "''Aditya''" "\<lambda>k. True"]
    self_echo_invokes_no_handler [of "BufferStateEvent True ''Aditya'' 0" "''Aditya''" "\<lambda>k. True"]
    self_echo_invokes_no_handler [of "TimeSyncEvent 10 TsPlaying ''Aditya'' 0" "''Aditya''" "\<lambda>k. True"]
    self_echo_invokes_no_handler [of "ChatMessageEvent ''hi'' ''Aditya'' 0" "''Aditya''" "\<lambda>k. True"]
    self_echo_invokes_no_handler [of "ChatUiStateEvent True ''Aditya''" "''Aditya''" "\<lambda>k. True"]
    self_echo_invokes_no_handler [of "RequestStateEvent ''Aditya''" "''Aditya''" "\<lambda>k. True"]
    self_echo_invokes_no_handler [of "FileHashEvent ''abc123'' ''a.mp4'' ''Aditya''" "''Aditya''" "\<lambda>k. True"]
  by simp

section \<open>Buffering coordination\<close>

text \<open>
  C4. A buffer_state event with isBuffering true pauses the mounted player, raises the
  peer-buffering flag and sets the non-empty notice "Waiting for <sender>...". With
  isBuffering false the notice and the flag are cleared, and play() is called on the
  mounted player when the local side is not buffering; when the local side is
  buffering, no call is made on the player at all.
\<close>

theorem buffer_state_pause_and_guarded_resume:
  "(playerRef w = Some p \<longrightarrow> playerCalls (handleBufferState w True s) = playerCalls w @ [Pause])
   \<and> bufferNotice (handleBufferState w True s) = waitingNotice s
   \<and> truthy (waitingNotice s)
   \<and> peerBuffering (handleBufferState w True s)
   \<and> bufferNotice (handleBufferState w False s) = ''''
   \<and> \<not> peerBuffering (handleBufferState w False s)
   \<and> (playerRef w = Some p \<longrightarrow> \<not> localBufferingRef w \<longrightarrow>
        playerCalls (handleBufferState w False s) = playerCalls w @ [Play])
   \<and> (localBufferingRef w \<longrightarrow> playerCalls (handleBufferState w False s) = playerCalls w)"
  by (simp add: handleBufferState_def callPlayer_def waitingNotice_def truthy_def Let_def
        split: option.splits)

theorem buffer_state_pause_and_guarded_resume_witness:
  "playerCalls (handleBufferState exampleRoom True ''Aditya'') = [Pause]
   \<and> bufferNotice (handleBufferState exampleRoom True ''Aditya'') = waitingNotice ''Aditya''
   \<and> playerCalls (handleBufferState exampleRoom False ''Aditya'') = [Play]
   \<and> localBufferingRef (exampleRoom\<lparr>localBufferingRef := True\<rparr>)
   \<and> playerCalls (handleBufferState (exampleRoom\<lparr>localBufferingRef := True\<rparr>) False ''Aditya'') = []"
proof -
  have p2: "playerRef (exampleRoom\<lparr>localBufferingRef := True\<rparr>) = Some examplePlayer"
    by (simp add: exampleRoom_def)
  have c: "playerCalls exampleRoom = []" "\<not> localBufferingRef exampleRoom"
    by (simp_all add: exampleRoom_def)
  from buffer_state_pause_and_guarded_resume [of exampleRoom examplePlayer "''Aditya''"]
    buffer_state_pause_and_guarded_resume
      [of "exampleRoom\<lparr>localBufferingRef := True\<rparr>" examplePlayer "''Aditya''"]
  show ?thesis by (simp add: exampleRoom_player p2 c)
qed

section \<open>Late join\<close>

text \<open>
  C6, as stated, fails: a request_state event that arrives while no player is mounted
  (the stream is still loading, or failed to load) is answered with nothing, not even
  with the file hash of local-file mode.
\<close>

theorem request_state_counterexample:
  "localHashFile (exampleRoom\<lparr>playerRef := None\<rparr>) = Some exampleFile
   \<and> transportLog (receive (exampleRoom\<lparr>playerRef := None\<rparr>) (Some (RequestStateEvent ''Aditya'')))
       = []"
  by (simp add: receive_def dispatch_def handleRequestState_def localHashFile_def
        exampleRoom_def exampleEngine_def exampleFile_def truthy_def)

text \<open>
  C6, amended. A request_state event handled by a room whose player is mounted (with
  the identity set and the channel open) sends one playback_state event carrying the
  player's current time, the state playing when the player plays and paused
  otherwise, the local identity and the current clock; in local-file mode with a hashed
  local file a file_hash event with that hash and the file's name follows, and
  otherwise nothing more is sent. While no player is mounted the handler returns at
  once: the room is unchanged and nothing is sent.
\<close>

theorem request_state_reemits_local_state:
  assumes ident: "identity w = Some ident" "truthy ident"
    and ch: "channelRef (syncEngine w) = Some ch"
  shows "(playerRef w = Some p \<longrightarrow>
           transportLog (handleRequestState w) =
             transportLog w
             @ [Send (PlaybackStateEvent (if isPlaying p then Playing else Paused)
                        (getCurrentTime p) ident (now w))]
             @ (case localHashFile w of
                  None \<Rightarrow> []
                | Some f \<Rightarrow> [Send (FileHashEvent (lf_hash f) (lf_name f) ident)]))
       \<and> (mode w = Some Local \<and> localFile w = Some f \<and> truthy (lf_hash f)
            \<longrightarrow> localHashFile w = Some f)
       \<and> (playerRef w = None \<longrightarrow> handleRequestState w = w)"
  using assms
  by (simp add: handleRequestState_def withEmit_def emitPlaybackState_def emitFileHash_def
        emitWith_def broadcast_def localHashFile_def Let_def split: option.splits)

theorem request_state_reemits_local_state_witness:
  "transportLog (handleRequestState exampleRoom) =
     [Send (PlaybackStateEvent Paused 40 ''Manika'' 0),
      Send (FileHashEvent ''def456'' ''film.mp4'' ''Manika'')]
   \<and> transportLog (handleRequestState (exampleRoom\<lparr>mode := Some Cloud\<rparr>)) =
     [Send (PlaybackStateEvent Paused 40 ''Manika'' 0)]
   \<and> handleRequestState (exampleRoom\<lparr>playerRef := None\<rparr>) = exampleRoom\<lparr>playerRef := None\<rparr>"
proof -
  have i1: "identity exampleRoom = Some ''Manika''" "truthy ''Manika''"
    by (simp_all add: exampleRoom_def truthy_def)
  have p2: "playerRef (exampleRoom\<lparr>mode := Some Cloud\<rparr>) = Some examplePlayer"
    and i2: "identity (exampleRoom\<lparr>mode := Some Cloud\<rparr>) = Some ''Manika''"
    and c2: "channelRef (syncEngine (exampleRoom\<lparr>mode := Some Cloud\<rparr>))
               = Some \<lparr>channelName = ''watchroom-abc'', presenceKey = ''Manika''\<rparr>"
    and h2: "localHashFile (exampleRoom\<lparr>mode := Some Cloud\<rparr>) = None"
    by (simp_all add: exampleRoom_def exampleEngine_def localHashFile_def)
  have p3: "playerRef (exampleRoom\<lparr>playerRef := None\<rparr>) = None"
    and i3: "identity (exampleRoom\<lparr>playerRef := None\<rparr>) = Some ''Manika''"
    and c3: "channelRef (syncEngine (exampleRoom\<lparr>playerRef := None\<rparr>))
               = Some \<lparr>channelName = ''watchroom-abc'', presenceKey = ''Manika''\<rparr>"
    by (simp_all add: exampleRoom_def exampleEngine_def)
  have vals: "\<not> isPlaying examplePlayer" "getCurrentTime examplePlayer = 40"
    "transportLog exampleRoom = []" "now exampleRoom = 0"
    "lf_hash exampleFile = ''def456''" "lf_name exampleFile = ''film.mp4''"
    by (simp_all add: isPlaying_def getCurrentTime_def examplePlayer_def exampleRoom_def
          exampleFile_def)
  from request_state_reemits_local_state
         [OF i1 exampleRoom_channel, where p = examplePlayer and f = exampleFile]
    request_state_reemits_local_state
         [OF i2 i1(2) c2, where p = examplePlayer and f = exampleFile]
    request_state_reemits_local_state [OF i3 i1(2) c3]
  show ?thesis by (simp add: vals h2 p2 p3 exampleRoom_player exampleRoom_localHashFile)
qed

section \<open>Subscription guard and best-effort emit\<close>

text \<open>
  C7, as stated, fails in its second half: once the effect has created the channel, an
  emit is handed to the channel whether or not the subscription has been confirmed.
  After a failed subscribe connected is false, and the event is sent all the same.
\<close>

theorem emit_before_subscribed_counterexample:
  "engineRun initialEngine
     [RunEffect ''abc'' (Some ''Aditya''), Status ''CHANNEL_ERROR'',
      Emit (RequestStateEvent ''Aditya'')]
   = (\<lparr>channelRef = Some \<lparr>channelName = ''watchroom-abc'', presenceKey = ''Aditya''\<rparr>,
       connected = False\<rparr>,
      [Subscribe ''watchroom-abc'' ''Aditya'', Send (RequestStateEvent ''Aditya'')])"
  by (simp add: initialEngine_def cleanup_def subscriptionEffect_def subscribeStatus_def
        broadcast_def truthy_def Let_def)

text \<open>
  C7, amended. With an empty room key, or an absent or empty identity, the subscription
  effect asks nothing of the transport and leaves the engine as it was; an engine that
  is only ever given such keys stays in its initial state, where connected is false,
  whatever statuses, cleanups and emits reach it. While no channel exists (before the
  effect has passed its guard, or after cleanup), broadcast and each of the seven
  emitters send nothing and leave the engine unchanged, and events dropped this way
  are not sent when a subscription opens later. Once the channel exists, broadcast
  hands every event to it, whether connected is true or not.
\<close>

theorem no_subscription_without_key_and_emit_dropped:
  "(\<not> truthy videoId \<or> \<not> truthyOpt ident \<longrightarrow> subscriptionEffect videoId ident eng = (eng, []))
   \<and> (list_all keyless ins \<longrightarrow> engineRun initialEngine ins = (initialEngine, []))
   \<and> \<not> connected initialEngine
   \<and> (channelRef eng = None \<longrightarrow>
         broadcast eng event = (eng, [])
       \<and> emitPlaybackState ident clock eng pst t = (eng, [])
       \<and> emitBufferState ident clock eng b = (eng, [])
       \<and> emitTimeSync ident clock eng t tst = (eng, [])
       \<and> emitChatMessage ident clock eng msg = (eng, [])
       \<and> emitChatUiState ident eng b = (eng, [])
       \<and> requestCurrentState ident eng = (eng, [])
       \<and> emitFileHash ident eng h fileName = (eng, []))
   \<and> (truthy room \<and> truthy me \<longrightarrow>
         snd (engineRun initialEngine (map Emit evs @ [RunEffect room (Some me), Status ''SUBSCRIBED'']))
           = [Subscribe (''watchroom-'' @ room) me, Track me True])
   \<and> (channelRef eng = Some ch \<longrightarrow> broadcast eng event = (eng, [Send event]))"
proof -
  have a: "\<not> truthy videoId \<or> \<not> truthyOpt ident \<longrightarrow> subscriptionEffect videoId ident eng = (eng, [])"
    by (simp add: subscriptionEffect_guard)
  have b: "list_all keyless ins \<longrightarrow> engineRun initialEngine ins = (initialEngine, [])"
    by (simp add: engineRun_keyless initialEngine_def)
  have c: "\<not> connected initialEngine"
    by (simp add: initialEngine_def)
  have d: "channelRef eng = None \<longrightarrow>
         broadcast eng event = (eng, [])
       \<and> emitPlaybackState ident clock eng pst t = (eng, [])
       \<and> emitBufferState ident clock eng b = (eng, [])
       \<and> emitTimeSync ident clock eng t tst = (eng, [])
       \<and> emitChatMessage ident clock eng msg = (eng, [])
       \<and> emitChatUiState ident eng b = (eng, [])
       \<and> requestCurrentState ident eng = (eng, [])
       \<and> emitFileHash ident eng h fileName = (eng, [])"
    by (simp add: emitWith_closed broadcast_def emitPlaybackState_def emitBufferState_def
          emitTimeSync_def emitChatMessage_def emitChatUiState_def requestCurrentState_def
          emitFileHash_def)
  have e: "truthy room \<and> truthy me \<longrightarrow>
         snd (engineRun initialEngine (map Emit evs @ [RunEffect room (Some me), Status ''SUBSCRIBED'']))
           = [Subscribe (''watchroom-'' @ room) me, Track me True]"
    by (simp add: engineRun_dropped_emits initialEngine_def cleanup_def subscriptionEffect_def
          subscribeStatus_def Let_def)
  have f: "channelRef eng = Some ch \<longrightarrow> broadcast eng event = (eng, [Send event])"
    by (simp add: broadcast_def)
  from a b c d e f show ?thesis by blast
qed

theorem no_subscription_without_key_and_emit_dropped_witness:
  "subscriptionEffect '''' (Some ''Aditya'') initialEngine = (initialEngine, [])
   \<and> subscriptionEffect ''abc'' None initialEngine = (initialEngine, [])
   \<and> engineRun initialEngine
        [RunEffect '''' (Some ''Aditya''), Status ''SUBSCRIBED'', Emit (RequestStateEvent ''Aditya''),
         RunEffect ''abc'' None, Status ''SUBSCRIBED'']
       = (initialEngine, [])
   \<and> emitChatMessage (Some ''Aditya'') 5 initialEngine ''hi'' = (initialEngine, [])
   \<and> snd (engineRun initialEngine
        (map Emit [ChatMessageEvent ''hi'' ''Aditya'' 5]
           @ [RunEffect ''abc'' (Some ''Aditya''), Status ''SUBSCRIBED'']))
       = [Subscribe ''watchroom-abc'' ''Aditya'', Track ''Aditya'' True]
   \<and> broadcast (exampleEngine\<lparr>connected := False\<rparr>) (RequestStateEvent ''Manika'')
       = (exampleEngine\<lparr>connected := False\<rparr>, [Send (RequestStateEvent ''Manika'')])"
proof -
  have k: "list_all keyless
        [RunEffect '''' (Some ''Aditya''), Status ''SUBSCRIBED'', Emit (RequestStateEvent ''Aditya''),
         RunEffect ''abc'' None, Status ''SUBSCRIBED'']"
    by (simp add: truthy_def truthyOpt_def)
  have n: "channelRef initialEngine = None"
    by (simp add: initialEngine_def)
  have t: "\<not> truthy ''''" "\<not> truthyOpt None" "truthy ''abc''" "truthy ''Aditya''"
    by (simp_all add: truthy_def truthyOpt_def)
  have open_ch: "channelRef (exampleEngine\<lparr>connected := False\<rparr>)
      = Some \<lparr>channelName = ''watchroom-abc'', presenceKey = ''Manika''\<rparr>"
    by (simp add: exampleEngine_def)
  from no_subscription_without_key_and_emit_dropped
         [where videoId = "''''" and ident = "Some ''Aditya''" and eng = initialEngine
            and ins = "[RunEffect '''' (Some ''Aditya''), Status ''SUBSCRIBED'',
               Emit (RequestStateEvent ''Aditya''), RunEffect ''abc'' None, Status ''SUBSCRIBED'']"
            and clock = 5 and msg = "''hi''" and room = "''abc''" and me = "''Aditya''"
            and evs = "[ChatMessageEvent ''hi'' ''Aditya'' 5]"]
    no_subscription_without_key_and_emit_dropped
         [where videoId = "''abc''" and ident = None and eng = initialEngine]
    no_subscription_without_key_and_emit_dropped
         [where eng = "exampleEngine\<lparr>connected := False\<rparr>"
            and ch = "\<lparr>channelName = ''watchroom-abc'', presenceKey = ''Manika''\<rparr>"
            and event = "RequestStateEvent ''Manika''"]
  show ?thesis by (simp add: k n t open_ch)
qed

section \<open>File identity check\<close>

text \<open>
  C8. In local-file mode with a hashed local file, a file_hash event with the local
  hash clears the mismatch warning and shows the success notice, which the toast's
  timer removes 4000 ms later. An event with another hash sets the non-empty mismatch
  warning; the warning stays through every later input other than a file hash event
  and Dismiss (time passing, media events, events of the other kinds, presence
  changes, the local user's chat actions, the heartbeat), and Dismiss clears it. In both cases the handler makes no call on the player and leaves it as
  it was.
\<close>

theorem file_hash_verdict_is_advisory:
  assumes "localHashFile w = Some f"
  shows "(h = lf_hash f \<longrightarrow>
            hashWarning (handleFileHash w h n s) = ''''
          \<and> notification (handleFileHash w h n s) = verifiedNotice s
          \<and> truthy (verifiedNotice s)
          \<and> notification (advance (handleFileHash w h n s) 4000) = '''')
       \<and> (h \<noteq> lf_hash f \<longrightarrow>
            hashWarning (handleFileHash w h n s) = mismatchWarning s n
          \<and> truthy (mismatchWarning s n)
          \<and> (list_all (\<lambda>i. \<not> touchesWarning i) ins \<longrightarrow>
                hashWarning (roomRun (handleFileHash w h n s) ins) = mismatchWarning s n)
          \<and> hashWarning (roomStep (handleFileHash w h n s) Dismiss) = '''')
       \<and> playerCalls (handleFileHash w h n s) = playerCalls w
       \<and> playerRef (handleFileHash w h n s) = playerRef w"
proof -
  have eq: "h = lf_hash f \<longrightarrow>
            hashWarning (handleFileHash w h n s) = ''''
          \<and> notification (handleFileHash w h n s) = verifiedNotice s
          \<and> truthy (verifiedNotice s)
          \<and> notification (advance (handleFileHash w h n s) 4000) = ''''"
    using assms
    by (simp add: handleFileHash_def showNotification_def verifiedNotice_def truthy_def
          advance_def Let_def)
  have ne1: "h \<noteq> lf_hash f \<longrightarrow> hashWarning (handleFileHash w h n s) = mismatchWarning s n
          \<and> truthy (mismatchWarning s n)"
    using assms by (simp add: handleFileHash_def mismatchWarning_def truthy_def)
  have ne2: "h \<noteq> lf_hash f \<longrightarrow> list_all (\<lambda>i. \<not> touchesWarning i) ins \<longrightarrow>
                hashWarning (roomRun (handleFileHash w h n s) ins) = mismatchWarning s n"
    using ne1 by (simp add: hashWarning_roomRun)
  have ne3: "hashWarning (roomStep (handleFileHash w h n s) Dismiss) = ''''"
    by (simp add: dismissHashWarning_def)
  have pl: "playerCalls (handleFileHash w h n s) = playerCalls w
       \<and> playerRef (handleFileHash w h n s) = playerRef w"
    using assms by (simp add: handleFileHash_def showNotification_def)
  from eq ne1 ne2 ne3 pl show ?thesis by blast
qed

theorem file_hash_verdict_is_advisory_witness:
  "hashWarning (handleFileHash exampleRoom ''abc123'' ''film.mp4'' ''Aditya'')
     = mismatchWarning ''Aditya'' ''film.mp4''
   \<and> hashWarning (roomRun (handleFileHash exampleRoom ''abc123'' ''film.mp4'' ''Aditya'')
        [Advance 60000, Media EvPlay, PresenceLeave ''Aditya'',
         Receive (Some (TimeSyncEvent 41 TsPlaying ''Aditya'' 9)), ChatToggle])
     = mismatchWarning ''Aditya'' ''film.mp4''
   \<and> playerCalls (handleFileHash exampleRoom ''abc123'' ''film.mp4'' ''Aditya'') = []
   \<and> hashWarning (handleFileHash exampleRoom ''def456'' ''film.mp4'' ''Aditya'') = ''''
   \<and> notification (handleFileHash exampleRoom ''def456'' ''film.mp4'' ''Aditya'')
     = verifiedNotice ''Aditya''"
proof -
  have quiet: "list_all (\<lambda>i. \<not> touchesWarning i)
        [Advance 60000, Media EvPlay, PresenceLeave ''Aditya'',
         Receive (Some (TimeSyncEvent 41 TsPlaying ''Aditya'' 9)), ChatToggle]"
    by simp
  have vals: "lf_hash exampleFile = ''def456''" "playerCalls exampleRoom = []"
    by (simp_all add: exampleFile_def exampleRoom_def)
  from file_hash_verdict_is_advisory
         [OF exampleRoom_localHashFile, where h = "''abc123''" and n = "''film.mp4''"
            and s = "''Aditya''"
            and ins = "[Advance 60000, Media EvPlay, PresenceLeave ''Aditya'',
                        Receive (Some (TimeSyncEvent 41 TsPlaying ''Aditya'' 9)), ChatToggle]"]
    file_hash_verdict_is_advisory
         [OF exampleRoom_localHashFile, where h = "''def456''" and n = "''film.mp4''"
            and s = "''Aditya''"]
  show ?thesis by (simp add: quiet vals)
qed

section \<open>Repeated delivery\<close>

text \<open>
  C5, as stated, fails: a chat message delivered twice stands twice in the transcript,
  and a playback_state event delivered twice, at the same instant, issues its command
  sequence twice.
\<close>

theorem redelivery_counterexample:
  "messages (receive (receive exampleRoom (Some (ChatMessageEvent ''hi'' ''Aditya'' 5)))
                 (Some (ChatMessageEvent ''hi'' ''Aditya'' 5)))
      = [\<lparr>cm_text = ''hi'', cm_sender = ''Aditya'', cm_timestamp = 5\<rparr>,
         \<lparr>cm_text = ''hi'', cm_sender = ''Aditya'', cm_timestamp = 5\<rparr>]
   \<and> messages (receive exampleRoom (Some (ChatMessageEvent ''hi'' ''Aditya'' 5)))
      = [\<lparr>cm_text = ''hi'', cm_sender = ''Aditya'', cm_timestamp = 5\<rparr>]
   \<and> playerCalls (receive (receive exampleRoom (Some (PlaybackStateEvent Playing 10 ''Aditya'' 5)))
                 (Some (PlaybackStateEvent Playing 10 ''Aditya'' 5)))
      = [SeekTo 10, Play, SeekTo 10, Play]
   \<and> playerCalls (receive exampleRoom (Some (PlaybackStateEvent Playing 10 ''Aditya'' 5)))
      = [SeekTo 10, Play]"
  by (simp add: receive_def dispatch_def exampleRoom_def exampleEngine_def handleChatMessage_def
        handlePlaybackState_def callPlayer_def)

text \<open>
  C5, amended. For every event kind except chat_message, delivering the same event
  twice in succession leaves the local reconciliation state, and the position and
  paused flag of the media element, the same as delivering it once. A chat message
  from the peer is appended to the transcript at each delivery. Player commands are
  issued at each delivery: a playback_state event from the peer, delivered twice to a
  room with a mounted player, issues its command sequence twice.
\<close>

theorem redelivery_repeats_commands_and_chat:
  assumes ch: "channelRef (syncEngine w) = Some ch"
    and peer: "s \<noteq> presenceKey ch"
    and player: "playerRef w = Some p"
  shows "(kind e \<noteq> chat_message \<longrightarrow>
            reconState (receive (receive w (Some e)) (Some e)) = reconState (receive w (Some e))
          \<and> elementState (receive (receive w (Some e)) (Some e)) = elementState (receive w (Some e)))
       \<and> messages (receive (receive w (Some (ChatMessageEvent body s ts))) (Some (ChatMessageEvent body s ts)))
           = messages (receive w (Some (ChatMessageEvent body s ts)))
             @ [\<lparr>cm_text = body, cm_sender = s, cm_timestamp = ts\<rparr>]
       \<and> playerCalls (receive w (Some (PlaybackStateEvent st t s ts)))
           = playerCalls w @ playbackCommands st t
       \<and> playerCalls (receive (receive w (Some (PlaybackStateEvent st t s ts)))
                               (Some (PlaybackStateEvent st t s ts)))
           = playerCalls w @ playbackCommands st t @ playbackCommands st t"
proof -
  have a: "kind e \<noteq> chat_message \<longrightarrow>
            reconState (receive (receive w (Some e)) (Some e)) = reconState (receive w (Some e))
          \<and> elementState (receive (receive w (Some e)) (Some e)) = elementState (receive w (Some e))"
    by (simp add: receive_twice)
  have b: "messages (receive (receive w (Some (ChatMessageEvent body s ts))) (Some (ChatMessageEvent body s ts)))
           = messages (receive w (Some (ChatMessageEvent body s ts)))
             @ [\<lparr>cm_text = body, cm_sender = s, cm_timestamp = ts\<rparr>]"
    using ch peer by (simp add: receive_cases handleChatMessage_def)
  obtain p' where p': "playerRef (handlePlaybackState w st t) = Some p'"
    using playerRef_handlePlaybackState [OF player] by blast
  have c: "playerCalls (receive w (Some (PlaybackStateEvent st t s ts)))
           = playerCalls w @ playbackCommands st t"
    using ch peer by (simp add: receive_cases handlePlaybackState_calls [OF player] playbackCommands_def)
  have d: "playerCalls (receive (receive w (Some (PlaybackStateEvent st t s ts)))
                               (Some (PlaybackStateEvent st t s ts)))
           = playerCalls w @ playbackCommands st t @ playbackCommands st t"
  proof -
    have se: "syncEngine (handlePlaybackState w st t) = syncEngine w"
      using syncEngine_runHandler [of w playback_state "PlaybackStateEvent st t s ts"] by simp
    show ?thesis
      using ch peer
      by (simp add: receive_cases se handlePlaybackState_calls [OF player]
            handlePlaybackState_calls [OF p'] playbackCommands_def)
  qed
  from a b c d show ?thesis by blast
qed

theorem redelivery_repeats_commands_and_chat_witness:
  "kind (BufferStateEvent True ''Aditya'' 5) \<noteq> chat_message
   \<and> reconState (receive (receive exampleRoom (Some (BufferStateEvent True ''Aditya'' 5)))
                          (Some (BufferStateEvent True ''Aditya'' 5)))
       = reconState (receive exampleRoom (Some (BufferStateEvent True ''Aditya'' 5)))
   \<and> playerCalls (receive (receive exampleRoom (Some (PlaybackStateEvent Paused 10 ''Aditya'' 5)))
                           (Some (PlaybackStateEvent Paused 10 ''Aditya'' 5)))
       = [Pause, SeekTo 10, Pause, SeekTo 10]"
proof -
  have peer: "''Aditya'' \<noteq> presenceKey \<lparr>channelName = ''watchroom-abc'', presenceKey = ''Manika''\<rparr>"
    by simp
  have k: "kind (BufferStateEvent True ''Aditya'' 5) \<noteq> chat_message"
    by simp
  have calls: "playerCalls exampleRoom = []"
    by (simp add: exampleRoom_def)
  from redelivery_repeats_commands_and_chat
         [OF exampleRoom_channel peer exampleRoom_player,
          where e = "BufferStateEvent True ''Aditya'' 5" and st = Paused and t = 10 and ts = 5]
  show ?thesis by (simp add: k calls playbackCommands_def)
qed

section \<open>Echo suppression of programmatic commands\<close>

text \<open>
  C9, as stated, fails, in two ways. A reset scheduled by an earlier command clears the
  flag raised by a later one: the peer plays at 0 ms and pauses at 150 ms, the reset of
  the first play() runs at 200 ms, and the element's seeked event for the second
  command, 50 ms after it, is forwarded and sent as an outgoing playback_state. And
  the window is fixed: a seeked event that the element raises 300 ms after a single
  seekTo is forwarded and sent as well.
\<close>

theorem echo_suppression_counterexample:
  "transportLog (roomRun exampleRoom
     [Receive (Some (PlaybackStateEvent Playing 10 ''Aditya'' 0)), Advance 150,
      Receive (Some (PlaybackStateEvent Paused 11 ''Aditya'' 150)), Advance 50,
      Media EvSeeked]) = [Send (PlaybackStateEvent Seeked 11 ''Manika'' 200)]
   \<and> transportLog (roomRun exampleRoom
     [Receive (Some (PlaybackStateEvent Seeked 10 ''Aditya'' 0)), Advance 300,
      Media EvSeeked]) = [Send (PlaybackStateEvent Seeked 10 ''Manika'' 300)]"
  by (simp add: roomRun_def receive_def dispatch_def exampleRoom_def exampleEngine_def
       examplePlayer_def handlePlaybackState_def callPlayer_def play_def pause_def seekTo_def
       advance_def fireTimers_def mediaEvent_def mediaListener_def handleSeeked_def
       emitPlaybackState_def emitWith_def broadcast_def withEmit_def truthy_def Let_def)

text \<open>
  C9, amended.

  \<^item> The window of a single command. With no reset pending, the suppression flag is up
    \<open>d\<close> ms after a play() or a pause() exactly when \<open>d < 200\<close>, and \<open>d\<close> ms after a
    seekTo on a mounted element exactly when \<open>d < 300\<close>.
  \<^item> Silence within the window. A command (play, pause or seekTo) issued when every
    reset still pending is due at least 200 ms later keeps onPlay, onPause and onSeeked
    from being invoked while less than 200 ms pass, whatever media events the element
    raises and whatever further commands are issued in that time. A seekTo on a
    mounted element issued when every pending reset is due at least 300 ms later, and
    followed by no further command, does so while less than 300 ms pass.
  \<^item> Nothing is sent for a suppressed event. While the flag of the room's player is up,
    a play, pause or seeked event of the element sends nothing on the channel.
  \<^item> Outside the window the event is an action of the local user. A play, pause or
    seeked event that reaches a mounted player whose flag is down invokes onPlay,
    onPause or onSeeked with the element's current time, and the room (its identity
    set, its channel open) sends a playback_state event with the state playing, paused
    or seeked, that time, the local identity and the current clock.
\<close>

theorem echo_suppressed_until_first_reset:
  "(suppressTimers p = [] \<longrightarrow>
      suppressEventsRef (fst (snd (playerRun t p [Command Play, Wait d]))) = (d < 200)
    \<and> suppressEventsRef (fst (snd (playerRun t p [Command Pause, Wait d]))) = (d < 200))
   \<and> (suppressTimers p = [] \<and> videoRef p = Some v \<longrightarrow>
        suppressEventsRef (fst (snd (playerRun t p [Command (SeekTo x), Wait d]))) = (d < 300))
   \<and> (list_all (\<lambda>dl. t + 200 \<le> dl) (suppressTimers p) \<and> waited ins < 200 \<longrightarrow>
        filter isEcho (snd (snd (playerRun t p (Command c # ins)))) = [])
   \<and> (videoRef p = Some v \<and> list_all (\<lambda>dl. t + 300 \<le> dl) (suppressTimers p)
        \<and> \<not> list_ex isCommand ins \<and> waited ins < 300 \<longrightarrow>
        filter isEcho (snd (snd (playerRun t p (Command (SeekTo x) # ins)))) = [])
   \<and> (playerRef w = Some q \<and> suppressEventsRef q \<longrightarrow>
        transportLog (mediaEvent w EvPlay) = transportLog w
      \<and> transportLog (mediaEvent w EvPause) = transportLog w
      \<and> transportLog (mediaEvent w EvSeeked) = transportLog w)
   \<and> (videoRef q = Some u \<and> \<not> suppressEventsRef q \<longrightarrow>
        snd (mediaListener EvPlay q) = [OnPlay (currentTime u)]
      \<and> snd (mediaListener EvPause q) = [OnPause (currentTime u)]
      \<and> snd (mediaListener EvSeeked q) = [OnSeeked (currentTime u)])
   \<and> (playerRef w = Some q \<and> videoRef q = Some u \<and> \<not> suppressEventsRef q
        \<and> identity w = Some ident \<and> truthy ident \<and> channelRef (syncEngine w) = Some ch \<longrightarrow>
        transportLog (mediaEvent w EvPlay)
          = transportLog w @ [Send (PlaybackStateEvent Playing (currentTime u) ident (now w))]
      \<and> transportLog (mediaEvent w EvPause)
          = transportLog w @ [Send (PlaybackStateEvent Paused (currentTime u) ident (now w))]
      \<and> transportLog (mediaEvent w EvSeeked)
          = transportLog w @ [Send (PlaybackStateEvent Seeked (currentTime u) ident (now w))])"
proof -
  have single: "suppressTimers p = [] \<longrightarrow>
      suppressEventsRef (fst (snd (playerRun t p [Command Play, Wait d]))) = (d < 200)
    \<and> suppressEventsRef (fst (snd (playerRun t p [Command Pause, Wait d]))) = (d < 200)"
    by (auto simp: play_def pause_def fireTimers_def)
  have single_seek: "suppressTimers p = [] \<and> videoRef p = Some v \<longrightarrow>
        suppressEventsRef (fst (snd (playerRun t p [Command (SeekTo x), Wait d]))) = (d < 300)"
    by (auto simp: seekTo_def fireTimers_def)
  have quiet: "list_all (\<lambda>dl. t + 200 \<le> dl) (suppressTimers p) \<and> waited ins < 200 \<longrightarrow>
        filter isEcho (snd (snd (playerRun t p (Command c # ins)))) = []"
  proof
    assume a: "list_all (\<lambda>dl. t + 200 \<le> dl) (suppressTimers p) \<and> waited ins < 200"
    then have short: "waited ins < 200" by simp
    have "list_all (\<lambda>dl. t + waited ins < dl) (suppressTimers (execCommand t c p))"
      using a execCommand_timers [of t c p]
      by (fastforce simp: list_all_iff)
    with execCommand_raises short
    have "filter isEcho (snd (snd (playerRun t (execCommand t c p) ins))) = []"
      by (rule playerRun_suppressed)
    then show "filter isEcho (snd (snd (playerRun t p (Command c # ins)))) = []"
      by simp
  qed
  have quiet_seek: "videoRef p = Some v \<and> list_all (\<lambda>dl. t + 300 \<le> dl) (suppressTimers p)
        \<and> \<not> list_ex isCommand ins \<and> waited ins < 300 \<longrightarrow>
        filter isEcho (snd (snd (playerRun t p (Command (SeekTo x) # ins)))) = []"
  proof
    assume a: "videoRef p = Some v \<and> list_all (\<lambda>dl. t + 300 \<le> dl) (suppressTimers p)
        \<and> \<not> list_ex isCommand ins \<and> waited ins < 300"
    then have none: "\<not> list_ex isCommand ins" by simp
    have up: "suppressEventsRef (seekTo t x p) \<or> videoRef (seekTo t x p) = None"
      using a by (simp add: seekTo_def)
    have "list_all (\<lambda>dl. t + waited ins < dl) (suppressTimers (seekTo t x p))"
      using a by (fastforce simp: seekTo_def list_all_iff)
    with up none
    have "filter isEcho (snd (snd (playerRun t (seekTo t x p) ins))) = []"
      by (rule playerRun_no_commands)
    then show "filter isEcho (snd (snd (playerRun t p (Command (SeekTo x) # ins)))) = []"
      by simp
  qed
  have silent: "playerRef w = Some q \<and> suppressEventsRef q \<longrightarrow>
        transportLog (mediaEvent w EvPlay) = transportLog w
      \<and> transportLog (mediaEvent w EvPause) = transportLog w
      \<and> transportLog (mediaEvent w EvSeeked) = transportLog w"
    using mediaEvent_suppressed [of w q] by blast
  have fwd: "videoRef q = Some u \<and> \<not> suppressEventsRef q \<longrightarrow>
        snd (mediaListener EvPlay q) = [OnPlay (currentTime u)]
      \<and> snd (mediaListener EvPause q) = [OnPause (currentTime u)]
      \<and> snd (mediaListener EvSeeked q) = [OnSeeked (currentTime u)]"
    by (simp add: mediaListener_def)
  have sent: "playerRef w = Some q \<and> videoRef q = Some u \<and> \<not> suppressEventsRef q
        \<and> identity w = Some ident \<and> truthy ident \<and> channelRef (syncEngine w) = Some ch \<longrightarrow>
        transportLog (mediaEvent w EvPlay)
          = transportLog w @ [Send (PlaybackStateEvent Playing (currentTime u) ident (now w))]
      \<and> transportLog (mediaEvent w EvPause)
          = transportLog w @ [Send (PlaybackStateEvent Paused (currentTime u) ident (now w))]
      \<and> transportLog (mediaEvent w EvSeeked)
          = transportLog w @ [Send (PlaybackStateEvent Seeked (currentTime u) ident (now w))]"
    using mediaEvent_forwarded [of w q u ident ch] by blast
  from single single_seek quiet quiet_seek silent fwd sent show ?thesis
    by (intro conjI)
qed

theorem echo_suppressed_until_first_reset_witness:
  "suppressEventsRef (fst (snd (playerRun 0 examplePlayer [Command Play, Wait 199])))
   \<and> \<not> suppressEventsRef (fst (snd (playerRun 0 examplePlayer [Command Play, Wait 200])))
   \<and> suppressEventsRef (fst (snd (playerRun 0 examplePlayer [Command (SeekTo 10), Wait 299])))
   \<and> \<not> suppressEventsRef (fst (snd (playerRun 0 examplePlayer [Command (SeekTo 10), Wait 300])))
   \<and> waited [Command Play, Wait 100, Native EvSeeked, Wait 99, Native EvPlay] = 199
   \<and> filter isEcho (snd (snd (playerRun 0 examplePlayer
        (Command (SeekTo 10) # [Command Play, Wait 100, Native EvSeeked, Wait 99, Native EvPlay]))))
      = []
   \<and> filter isEcho (snd (snd (playerRun 0 examplePlayer
        (Command (SeekTo 10) # [Wait 299, Native EvSeeked]))))
      = []
   \<and> transportLog (mediaEvent
        (exampleRoom\<lparr>playerRef := Some (examplePlayer\<lparr>suppressEventsRef := True\<rparr>)\<rparr>) EvSeeked)
      = []
   \<and> snd (mediaListener EvSeeked examplePlayer) = [OnSeeked 40]
   \<and> transportLog (mediaEvent exampleRoom EvSeeked)
      = [Send (PlaybackStateEvent Seeked 40 ''Manika'' 0)]"
proof -
  have none: "suppressTimers examplePlayer = []"
    and mounted: "videoRef examplePlayer = Some \<lparr>currentTime = 40, paused = True\<rparr>"
    and down: "\<not> suppressEventsRef examplePlayer"
    and pending2: "list_all (\<lambda>dl. 0 + 200 \<le> dl) (suppressTimers examplePlayer)"
    and pending3: "list_all (\<lambda>dl. 0 + 300 \<le> dl) (suppressTimers examplePlayer)"
    by (simp_all add: examplePlayer_def)
  have total: "waited [Command Play, Wait 100, Native EvSeeked, Wait 99, Native EvPlay] = 199"
    by simp
  have short: "waited [Command Play, Wait 100, Native EvSeeked, Wait 99, Native EvPlay] < 200"
    by simp
  have lone: "\<not> list_ex isCommand [Wait 299, Native EvSeeked]"
    "waited [Wait 299, Native EvSeeked] < 300"
    by simp_all
  have room: "identity exampleRoom = Some ''Manika''" "truthy ''Manika''"
    "transportLog exampleRoom = []" "now exampleRoom = 0"
    by (simp_all add: exampleRoom_def truthy_def)
  have up: "playerRef (exampleRoom\<lparr>playerRef := Some (examplePlayer\<lparr>suppressEventsRef := True\<rparr>)\<rparr>)
        = Some (examplePlayer\<lparr>suppressEventsRef := True\<rparr>)"
    "suppressEventsRef (examplePlayer\<lparr>suppressEventsRef := True\<rparr>)"
    "transportLog (exampleRoom\<lparr>playerRef := Some (examplePlayer\<lparr>suppressEventsRef := True\<rparr>)\<rparr>) = []"
    by (simp_all add: exampleRoom_def)
  have w199: "suppressEventsRef (fst (snd (playerRun 0 examplePlayer [Command Play, Wait 199])))"
    using echo_suppressed_until_first_reset [where p = examplePlayer and t = 0 and d = 199] none
    by simp
  have w200: "\<not> suppressEventsRef (fst (snd (playerRun 0 examplePlayer [Command Play, Wait 200])))"
    using echo_suppressed_until_first_reset [where p = examplePlayer and t = 0 and d = 200] none
    by simp
  have w299: "suppressEventsRef (fst (snd (playerRun 0 examplePlayer [Command (SeekTo 10), Wait 299])))"
    using echo_suppressed_until_first_reset
            [where p = examplePlayer and t = 0 and d = 299 and x = 10
               and v = "\<lparr>currentTime = 40, paused = True\<rparr>"] none mounted
    by simp
  have w300: "\<not> suppressEventsRef (fst (snd (playerRun 0 examplePlayer [Command (SeekTo 10), Wait 300])))"
    using echo_suppressed_until_first_reset
            [where p = examplePlayer and t = 0 and d = 300 and x = 10
               and v = "\<lparr>currentTime = 40, paused = True\<rparr>"] none mounted
    by simp
  have q200: "filter isEcho (snd (snd (playerRun 0 examplePlayer
        (Command (SeekTo 10) # [Command Play, Wait 100, Native EvSeeked, Wait 99, Native EvPlay]))))
      = []"
    using echo_suppressed_until_first_reset
            [where p = examplePlayer and t = 0 and c = "SeekTo 10"
               and ins = "[Command Play, Wait 100, Native EvSeeked, Wait 99, Native EvPlay]"]
          pending2 short
    by blast
  have q300: "filter isEcho (snd (snd (playerRun 0 examplePlayer
        (Command (SeekTo 10) # [Wait 299, Native EvSeeked])))) = []"
    using echo_suppressed_until_first_reset
            [where p = examplePlayer and t = 0 and x = 10
               and v = "\<lparr>currentTime = 40, paused = True\<rparr>"
               and ins = "[Wait 299, Native EvSeeked]"]
          mounted pending3 lone
    by blast
  have silent: "transportLog (mediaEvent
        (exampleRoom\<lparr>playerRef := Some (examplePlayer\<lparr>suppressEventsRef := True\<rparr>)\<rparr>) EvSeeked)
      = []"
    using echo_suppressed_until_first_reset
            [where w = "exampleRoom\<lparr>playerRef := Some (examplePlayer\<lparr>suppressEventsRef := True\<rparr>)\<rparr>"
               and q = "examplePlayer\<lparr>suppressEventsRef := True\<rparr>"]
          up
    by simp
  have fwd: "snd (mediaListener EvSeeked examplePlayer) = [OnSeeked 40]
      \<and> transportLog (mediaEvent exampleRoom EvSeeked)
          = [Send (PlaybackStateEvent Seeked 40 ''Manika'' 0)]"
    using echo_suppressed_until_first_reset
            [where w = exampleRoom and q = examplePlayer
               and u = "\<lparr>currentTime = 40, paused = True\<rparr>" and ident = "''Manika''"
               and ch = "\<lparr>channelName = ''watchroom-abc'', presenceKey = ''Manika''\<rparr>"]
          exampleRoom_player mounted down room exampleRoom_channel
    by simp
  from w199 w200 w299 w300 total q200 q300 silent fwd show ?thesis
    by blast
qed

section \<open>Room key derivation\<close>

text \<open>
  C10, as stated, fails: not every room name has a room key. For the room name of the
  two ideographs U+6620 U+753B, btoa throws on the first code unit above 255, the
  derivation yields no key and handleStartWatching reports a processing failure.
\<close>

theorem room_key_counterexample:
  "deriveRoomId exampleLower [0x6620, 0x753B] = Inl InvalidCharacterError
   \<and> handleStartWatching exampleLower (Some (''film.mp4'', 1000)) (Some ''def456'') ''blob:film''
        [0x6620, 0x753B]
     = Inl ProcessingFailed"
  by (simp add: deriveRoomId_def handleStartWatching_def btoa_def toLowerCase_def trim_def
        isWhiteSpace_def isLatinCapital_def exampleLower_def)

text \<open>
  C10, amended. The derivation is deterministic and normalizing. Two non-blank room
  names that differ only in letter case and in leading or trailing white space (the
  cores \<open>a\<close> and \<open>b\<close>, free of surrounding white space and equal after lower-casing,
  each padded with white space) have the same outcome of the derivation and of
  handleStartWatching: the same room key, or the same failure. When the trimmed,
  lower-cased name holds no code unit above 255, the room key is its base64 text with
  every character outside a-z, A-Z, 0-9 removed, and a non-empty key names the channel
  watchroom-<key>; when it holds one, btoa throws, no key is derived and
  handleStartWatching reports a processing failure. The derivation is not injective:
  the distinct normal forms "ab?" and "ab" both derive "YWI".
\<close>

theorem room_key_normalizes_and_collides:
  assumes "list_all isWhiteSpace ws1" and "list_all isWhiteSpace ws2"
    and "list_all isWhiteSpace ws3" and "list_all isWhiteSpace ws4"
    and "trim a = a" and "trim b = b" and "a \<noteq> []" and "b \<noteq> []"
    and "toLowerCase tbl a = toLowerCase tbl b"
  shows "deriveRoomId tbl (ws1 @ a @ ws2) = deriveRoomId tbl (ws3 @ b @ ws4)
       \<and> handleStartWatching tbl sel hashed blob (ws1 @ a @ ws2)
           = handleStartWatching tbl sel hashed blob (ws3 @ b @ ws4)
       \<and> (\<not> list_ex (\<lambda>u. 255 < u) (toLowerCase tbl (trim n)) \<longrightarrow>
             deriveRoomId tbl n
               = Inr (filter isAlphaNumeric (base64 (toLowerCase tbl (trim n)))))
       \<and> (list_ex (\<lambda>u. 255 < u) (toLowerCase tbl (trim n)) \<longrightarrow>
             deriveRoomId tbl n = Inl InvalidCharacterError
           \<and> (trim n \<noteq> [] \<longrightarrow>
                 handleStartWatching tbl (Some (fname, fsize)) (Some h) blob n
                   = Inl ProcessingFailed))
       \<and> (deriveRoomId tbl n = Inr k \<and> truthy k \<and> truthy me \<longrightarrow>
             handleStartWatching tbl (Some (fname, fsize)) (Some h) blob n
               = Inr (\<lparr>lf_name = fname, lf_size = fsize, lf_objectUrl = blob, lf_hash = h\<rparr>, k)
           \<and> snd (subscriptionEffect (effectiveRoomId (Some k) v) (Some me) eng)
               = [Subscribe (''watchroom-'' @ k) me])
       \<and> toLowerCase tbl (trim (units ''ab?'')) \<noteq> toLowerCase tbl (trim (units ''ab''))
       \<and> deriveRoomId tbl (units ''ab?'') = Inr ''YWI''
       \<and> deriveRoomId tbl (units ''ab'') = Inr ''YWI''"
proof -
  have t1: "trim (ws1 @ a @ ws2) = a"
    using assms(1,2,5) by (simp add: trim_padding)
  have t2: "trim (ws3 @ b @ ws4) = b"
    using assms(3,4,6) by (simp add: trim_padding)
  have same: "deriveRoomId tbl (ws1 @ a @ ws2) = deriveRoomId tbl (ws3 @ b @ ws4)"
    by (rule same_core_same_outcome) (simp_all add: t1 t2 assms(7,8,9))
  have start: "handleStartWatching tbl sel hashed blob (ws1 @ a @ ws2)
           = handleStartWatching tbl sel hashed blob (ws3 @ b @ ws4)"
    by (rule same_core_same_outcome) (simp_all add: t1 t2 assms(7,8,9))
  have key: "\<not> list_ex (\<lambda>u. 255 < u) (toLowerCase tbl (trim n)) \<longrightarrow>
             deriveRoomId tbl n
               = Inr (filter isAlphaNumeric (base64 (toLowerCase tbl (trim n))))"
    by (simp add: deriveRoomId_def btoa_def)
  have nokey: "list_ex (\<lambda>u. 255 < u) (toLowerCase tbl (trim n)) \<longrightarrow>
             deriveRoomId tbl n = Inl InvalidCharacterError
           \<and> (trim n \<noteq> [] \<longrightarrow>
                 handleStartWatching tbl (Some (fname, fsize)) (Some h) blob n
                   = Inl ProcessingFailed)"
    by (simp add: deriveRoomId_def btoa_def handleStartWatching_def)
  have nonblank: "deriveRoomId tbl n = Inr k \<and> truthy k \<longrightarrow> trim n \<noteq> []"
    by (auto simp: deriveRoomId_def btoa_def toLowerCase_def truthy_def split: if_splits)
  have chan: "deriveRoomId tbl n = Inr k \<and> truthy k \<and> truthy me \<longrightarrow>
             handleStartWatching tbl (Some (fname, fsize)) (Some h) blob n
               = Inr (\<lparr>lf_name = fname, lf_size = fsize, lf_objectUrl = blob, lf_hash = h\<rparr>, k)
           \<and> snd (subscriptionEffect (effectiveRoomId (Some k) v) (Some me) eng)
               = [Subscribe (''watchroom-'' @ k) me]"
    using nonblank
    by (auto simp: handleStartWatching_def subscriptionEffect_def effectiveRoomId_def Let_def)
  have lower_ab: "toLowerCase tbl (trim (units ''ab?'')) = units ''ab?''"
    "toLowerCase tbl (trim (units ''ab'')) = units ''ab''"
    by (simp_all add: units_def trim_def toLowerCase_def isWhiteSpace_def isLatinCapital_def)
  have distinct: "toLowerCase tbl (trim (units ''ab?'')) \<noteq> toLowerCase tbl (trim (units ''ab''))"
    unfolding lower_ab by (simp add: units_def)
  have c1: "deriveRoomId tbl (units ''ab?'') = Inr ''YWI''"
    unfolding deriveRoomId_def lower_ab
    by (simp add: btoa_def base64_ab_question isAlphaNumeric_def) (simp add: units_def)
  have c2: "deriveRoomId tbl (units ''ab'') = Inr ''YWI''"
    unfolding deriveRoomId_def lower_ab
    by (simp add: btoa_def base64_ab_question isAlphaNumeric_def) (simp add: units_def)
  from same start key nokey chan distinct c1 c2 show ?thesis by blast
qed

theorem room_key_normalizes_and_collides_witness:
  "list_all isWhiteSpace [0x3000] \<and> list_all isWhiteSpace [0xFEFF, 32]
   \<and> list_all isWhiteSpace [] \<and> list_all isWhiteSpace [9]
   \<and> trim (units ''Movie Night'') = units ''Movie Night''
   \<and> toLowerCase exampleLower (units ''Movie Night'') = toLowerCase exampleLower (units ''movie night'')
   \<and> deriveRoomId exampleLower ([0x3000] @ units ''Movie Night'' @ [0xFEFF, 32])
       = Inr ''bW92aWUgbmlnaHQ''
   \<and> deriveRoomId exampleLower ([] @ units ''movie night'' @ [9]) = Inr ''bW92aWUgbmlnaHQ''
   \<and> handleStartWatching exampleLower (Some (''film.mp4'', 1000)) (Some ''def456'') ''blob:film''
        ([0x3000] @ units ''Movie Night'' @ [0xFEFF, 32])
       = Inr (exampleFile, ''bW92aWUgbmlnaHQ'')
   \<and> toLowerCase exampleLower [0x212A] = toLowerCase exampleLower (units ''k'')
   \<and> deriveRoomId exampleLower [0x212A] = Inr ''aw''
   \<and> list_ex (\<lambda>u. 255 < u) (toLowerCase exampleLower (trim [0x6620, 0x753B]))"
proof -
  have ws: "list_all isWhiteSpace [0x3000]" "list_all isWhiteSpace [0xFEFF, 32]"
    "list_all isWhiteSpace []" "list_all isWhiteSpace [9]"
    by (simp_all add: isWhiteSpace_def)
  have cores: "trim (units ''Movie Night'') = units ''Movie Night''"
    "trim (units ''movie night'') = units ''movie night''"
    "units ''Movie Night'' \<noteq> []" "units ''movie night'' \<noteq> []"
    by (simp_all add: units_def trim_def isWhiteSpace_def)
  have lower: "toLowerCase exampleLower (units ''Movie Night'') = units ''movie night''"
    "toLowerCase exampleLower (units ''movie night'') = units ''movie night''"
    by (simp_all add: units_def toLowerCase_def isLatinCapital_def)
  have key: "deriveRoomId exampleLower ([] @ units ''movie night'' @ [9]) = Inr ''bW92aWUgbmlnaHQ''"
    by (simp add: deriveRoomId_def btoa_def units_def trim_def isWhiteSpace_def toLowerCase_def
          isLatinCapital_def base64Digit_def base64Alphabet_def isAlphaNumeric_def)
  have kcores: "trim [0x212A] = [0x212A]" "trim (units ''k'') = units ''k''"
    "[0x212A::nat] \<noteq> []" "units ''k'' \<noteq> []"
    by (simp_all add: units_def trim_def isWhiteSpace_def)
  have klower: "toLowerCase exampleLower [0x212A] = toLowerCase exampleLower (units ''k'')"
    by (simp add: units_def toLowerCase_def isLatinCapital_def exampleLower_def)
  have kkey: "deriveRoomId exampleLower ([] @ units ''k'' @ []) = Inr ''aw''"
    by (simp add: deriveRoomId_def btoa_def units_def trim_def isWhiteSpace_def toLowerCase_def
          isLatinCapital_def base64Digit_def base64Alphabet_def isAlphaNumeric_def)
  have high: "list_ex (\<lambda>u. 255 < u) (toLowerCase exampleLower (trim [0x6620, 0x753B]))"
    by (simp add: trim_def isWhiteSpace_def toLowerCase_def isLatinCapital_def exampleLower_def)
  have eq: "toLowerCase exampleLower (units ''Movie Night'')
      = toLowerCase exampleLower (units ''movie night'')"
    by (simp only: lower)
  from room_key_normalizes_and_collides
         [OF ws cores eq, where sel = "Some (''film.mp4'', 1000)" and hashed = "Some ''def456''"
            and blob = "''blob:film''" and n = "[] @ units ''movie night'' @ [9]"
            and k = "''bW92aWUgbmlnaHQ''" and fname = "''film.mp4''" and fsize = 1000
            and h = "''def456''" and me = "''Manika''"]
  have m: "deriveRoomId exampleLower ([0x3000] @ units ''Movie Night'' @ [0xFEFF, 32])
        = deriveRoomId exampleLower ([] @ units ''movie night'' @ [9])
      \<and> handleStartWatching exampleLower (Some (''film.mp4'', 1000)) (Some ''def456'') ''blob:film''
          ([0x3000] @ units ''Movie Night'' @ [0xFEFF, 32])
        = handleStartWatching exampleLower (Some (''film.mp4'', 1000)) (Some ''def456'') ''blob:film''
          ([] @ units ''movie night'' @ [9])
      \<and> (deriveRoomId exampleLower ([] @ units ''movie night'' @ [9]) = Inr ''bW92aWUgbmlnaHQ''
            \<and> truthy ''bW92aWUgbmlnaHQ'' \<and> truthy ''Manika'' \<longrightarrow>
          handleStartWatching exampleLower (Some (''film.mp4'', 1000)) (Some ''def456'') ''blob:film''
            ([] @ units ''movie night'' @ [9])
          = Inr (\<lparr>lf_name = ''film.mp4'', lf_size = 1000, lf_objectUrl = ''blob:film'',
                   lf_hash = ''def456''\<rparr>, ''bW92aWUgbmlnaHQ''))"
    by blast
  have tr: "truthy ''bW92aWUgbmlnaHQ''" "truthy ''Manika''"
    by (simp_all add: truthy_def)
  from m key tr
  have movie: "deriveRoomId exampleLower ([0x3000] @ units ''Movie Night'' @ [0xFEFF, 32])
        = Inr ''bW92aWUgbmlnaHQ''
      \<and> handleStartWatching exampleLower (Some (''film.mp4'', 1000)) (Some ''def456'') ''blob:film''
          ([0x3000] @ units ''Movie Night'' @ [0xFEFF, 32])
        = Inr (exampleFile, ''bW92aWUgbmlnaHQ'')"
    by (simp add: exampleFile_def)
  from room_key_normalizes_and_collides
         [OF ws(3) ws(3) ws(3) ws(3) kcores klower]
  have "deriveRoomId exampleLower ([] @ [0x212A] @ []) = deriveRoomId exampleLower ([] @ units ''k'' @ [])"
    by blast
  with kkey have kelvin: "deriveRoomId exampleLower [0x212A] = Inr ''aw''"
    by simp
  from ws cores(1) eq movie key klower kelvin high show ?thesis by blast
qed

end
